theory Spec2Isabelle
  imports Main "HOL-Library.AList"
begin

section \<open>Data model of \<open>src/Model.js\<close>\<close>

text \<open>
  The embedding follows the class \<open>Model\<close>. A JavaScript value is a \<open>jsval\<close>; a model
  instance is an \<open>inst\<close>: its class name (the prototype, \<open>this.constructor\<close>), the
  metadata object \<open>this.$restinfront\<close> as the record \<open>meta\<close> together with the value of
  \<open>$restinfront.count\<close> (\<open>Undefined\<close> while the property is absent), the own property
  \<open>collection\<close> (absent, or the array of child instances) and the remaining own
  properties in the order \<open>Object.entries\<close> yields them. Mutation of \<open>this\<close> is explicit state passing; every
  \<open>throw\<close> and every runtime \<open>TypeError\<close> is a value of \<open>js_error\<close>.

  Modelling conventions:
  \<^item> a number is \<open>JNum n\<close> for an integer \<open>n\<close>; \<open>count\<close> is any value, and the arithmetic
    on it (\<open>count + 1\<close>, \<open>count - 1\<close>, \<open>length < count\<close>) is computed where it is exact and
    is the host's otherwise (see \<open>incr\<close>, \<open>decr\<close>, \<open>js_less\<close>);
  \<^item> property keys are not array indices, so that \<open>Object.entries\<close> yields them in
    insertion order;
  \<^item> objects are values, there are no references: two instances are never aliased;
  \<^item> the names \<open>$restinfront\<close> and \<open>collection\<close> are reserved: they are not keys of the
    data or of the schema;
  \<^item> the functions a field type or a schema entry supplies (\<open>isBlank\<close>, \<open>beforeBuild\<close>,
    \<open>isValid\<close>) and a predicate passed to \<open>remove\<close> return a value; the callbacks
    \<open>onValidationError\<close> and \<open>onFetchError\<close> return or raise, and every call of them is
    recorded in an event log.
\<close>

subsection \<open>Fetch state and metadata\<close>

record op_states =
  op_progressing :: bool
  op_succeeded :: bool
  op_failed :: bool

text \<open>
  \<open>$restinfront.fetch.states\<close>. The constructor creates the sub-state \<open>get\<close> only; the
  property \<open>states.save\<close> that \<open>fetch\<close> writes to is never created by the class
  (the constructor puts the save flags at \<open>$restinfront.fetch.save\<close>), so it is optional
  here and \<open>None\<close> on every constructed instance.
\<close>

record fetch_states =
  progressing :: bool
  succeeded :: bool
  succeededOnce :: bool
  failed :: bool
  states_get :: op_states
  states_save :: "op_states option"

record fetch_options =
  fo_method :: string
  fo_pathname :: string
  fo_searchParams :: "(string \<times> string) list option"
  fo_extend :: bool

record response =
  ok :: bool
  status :: int

record meta =
  isNew :: "bool option"
  validator :: "(string \<times> bool) list option"
  isCollection :: bool
  fetch_options :: "fetch_options option"
  fetch_response :: "response option"
  states :: fetch_states
  fetch_save :: "op_states option"

subsection \<open>Values and instances\<close>

datatype jsval =
    Undefined
  | Null
  | JBool bool
  | JNum int
  | JStr string
  | JArr "jsval list"
  | JObj "(string \<times> jsval) list"
  | JModel inst
and inst =
    Inst (cname: string) (restinfront: meta) (count: jsval) (collection: "inst list option")
      (props: "(string \<times> jsval) list")

datatype rkind =
    MustBeCollection
  | CannotBeCollection
  | ValidSyntax
  | InvalidToken jsval
  | EndpointRequired
  | ErrorStatus int

datatype js_error =
    RestinfrontError rkind
  | TypeError
  | SyntaxError
  | AbortError
  | NetworkError
  | ReferenceError

definition idle :: op_states where
  "idle = \<lparr>op_progressing = False, op_succeeded = False, op_failed = False\<rparr>"

text \<open>The object literal the constructor assigns to \<open>this.$restinfront\<close>.\<close>

definition new_meta :: meta where
  "new_meta =
     \<lparr>isNew = None, validator = None, isCollection = False,
      fetch_options = None, fetch_response = None,
      states = \<lparr>progressing = False, succeeded = False, succeededOnce = False,
                failed = False, states_get = idle, states_save = None\<rparr>,
      fetch_save = None\<rparr>"

definition set_meta :: "(meta \<Rightarrow> meta) \<Rightarrow> inst \<Rightarrow> inst" where
  "set_meta f this =
     Inst (cname this) (f (restinfront this)) (count this) (collection this) (props this)"

definition set_count :: "jsval \<Rightarrow> inst \<Rightarrow> inst" where
  "set_count c this = Inst (cname this) (restinfront this) c (collection this) (props this)"

definition setCollection :: "inst \<Rightarrow> inst list \<Rightarrow> inst" where
  "setCollection this newCollection =
     Inst (cname this) (restinfront this) (count this) (Some newCollection) (props this)"

definition set_prop :: "inst \<Rightarrow> string \<Rightarrow> jsval \<Rightarrow> inst" where
  "set_prop this key v =
     Inst (cname this) (restinfront this) (count this) (collection this)
       (AList.update key v (props this))"

subsection \<open>Primitive operations of the language\<close>

fun truthy :: "jsval \<Rightarrow> bool" where
  "truthy Undefined = False"
| "truthy Null = False"
| "truthy (JBool b) = b"
| "truthy (JNum n) = (n \<noteq> 0)"
| "truthy (JStr s) = (s \<noteq> [])"
| "truthy _ = True"

text \<open>
  \<open>a === b\<close>. Primitives compare by value. Arrays, objects and instances compare by
  reference, which a value model does not have: they are taken as different.
\<close>

fun primitive :: "jsval \<Rightarrow> bool" where
  "primitive (JArr _) = False"
| "primitive (JObj _) = False"
| "primitive (JModel _) = False"
| "primitive _ = True"

definition strict_eq :: "jsval \<Rightarrow> jsval \<Rightarrow> bool" where
  "strict_eq a b = (primitive a \<and> a = b)"

text \<open>\<open>this[key]\<close> on an instance, for a key that is not reserved.\<close>

definition inst_get :: "inst \<Rightarrow> string \<Rightarrow> jsval" where
  "inst_get this key = (case map_of (props this) key of Some v \<Rightarrow> v | None \<Rightarrow> Undefined)"

text \<open>\<open>v[key]\<close> where \<open>v\<close> passed \<open>isObject\<close>.\<close>

fun get_prop :: "jsval \<Rightarrow> string \<Rightarrow> jsval" where
  "get_prop (JObj kvs) key = (case map_of kvs key of Some v \<Rightarrow> v | None \<Rightarrow> Undefined)"
| "get_prop (JModel i) key = inst_get i key"
| "get_prop _ key = Undefined"

text \<open>
  Modelled from the spec: the helpers \<open>isObject\<close>, \<open>isString\<close>, \<open>isArray\<close> and \<open>has\<close> are
  imported from the package \<open>utilib\<close>, which is not part of the sources. \<open>isObject\<close> holds
  of plain objects and of instances (the README passes instances to \<open>exists\<close> and
  \<open>toggle\<close>); \<open>has\<close> is the own-property test, false on a value without properties.
\<close>

fun isObject :: "jsval \<Rightarrow> bool" where
  "isObject (JObj _) = True"
| "isObject (JModel _) = True"
| "isObject _ = False"

definition own_keys :: "inst \<Rightarrow> string list" where
  "own_keys this =
     ''$restinfront'' # (case collection this of None \<Rightarrow> [] | Some _ \<Rightarrow> [''collection''])
       @ map fst (props this)"

fun has :: "jsval \<Rightarrow> string \<Rightarrow> bool" where
  "has (JObj kvs) key = (key \<in> set (map fst kvs))"
| "has (JModel i) key = (key \<in> set (own_keys i))"
| "has _ key = False"

subsection \<open>Schema and model class\<close>

record build_options =
  o_isNew :: "bool option"
  o_count :: "jsval option"

record ser_options =
  removeInvalid :: "bool option"

text \<open>The field-type capability: an external collaborator, given by its functions.\<close>

record fieldtype =
  isBlank :: "jsval \<Rightarrow> bool"
  t_isValid :: "jsval \<Rightarrow> bool"
  beforeBuild :: "jsval \<Rightarrow> build_options \<Rightarrow> jsval"
  t_beforeSerialize :: "jsval \<Rightarrow> ser_options \<Rightarrow> jsval"
  association :: "string option"

text \<open>A schema entry after \<open>Model.init\<close> has normalised it.\<close>

record fieldconf =
  ftype :: fieldtype
  primaryKey :: bool
  defaultValue :: "jsval \<Rightarrow> jsval"
  allowBlank :: "jsval \<Rightarrow> inst \<Rightarrow> bool"
  f_isValid :: "jsval \<Rightarrow> inst \<Rightarrow> bool"
  autoChecked :: bool

text \<open>
  The error map of \<open>_getValidationErrors\<close> is a \<open>Map\<close>, kept in insertion order; the value
  stored for an association is the nested map, or for \<open>HasMany\<close> the array of the nested
  maps.
\<close>

datatype verror =
    NOT_VALID jsval
  | NOT_FOUND
  | Errors "(string \<times> verror) list"
  | ErrorsList "(string \<times> verror) list list"

type_synonym errmap = "(string \<times> verror) list"

text \<open>
  The static configuration of a model class. \<open>authentication\<close> is \<open>None\<close> for \<open>false\<close> and
  \<open>Some tok\<close> for a provider whose promise resolves to \<open>tok\<close>; \<open>schema\<close> is \<open>None\<close> for
  \<open>false\<close>; \<open>primaryKeyFieldname\<close> is \<open>None\<close> for \<open>null\<close>. A callback is given by what a
  call of it does: it returns (\<open>None\<close>) or raises an error; \<open>onFetchError\<close> receives the
  error and the response. The default callbacks \<open>() => null\<close> return.
\<close>

record model_class =
  baseUrl :: string
  endpoint :: string
  authentication :: "jsval option"
  schema :: "(string \<times> fieldconf) list option"
  primaryKeyFieldname :: "string option"
  collectionDataKey :: string
  collectionCountKey :: string
  onValidationError :: "errmap \<Rightarrow> js_error option"
  onFetchError :: "js_error \<Rightarrow> response option \<Rightarrow> js_error option"

type_synonym classes = "string \<Rightarrow> model_class"

text \<open>The property key that \<open>x[this.primaryKeyFieldname]\<close> reads: \<open>null\<close> is the key \<open>"null"\<close>.\<close>

definition pk_key :: "model_class \<Rightarrow> string" where
  "pk_key cls = (case primaryKeyFieldname cls of None \<Rightarrow> ''null'' | Some k \<Rightarrow> k)"


definition schema_field :: "model_class \<Rightarrow> string \<Rightarrow> fieldconf option" where
  "schema_field cls fieldname =
     (case schema cls of None \<Rightarrow> None | Some sch \<Rightarrow> map_of sch fieldname)"

subsection \<open>The host\<close>

record request_init =
  ri_method :: string
  ri_mode :: string
  ri_content_type :: string
  ri_bearer :: "jsval option"
  ri_body :: "jsval option"

text \<open>
  The environment of a run: the two functions of the global object \<open>JSON\<close>; the
  transport (the global \<open>fetch\<close>), which answers a request with an \<open>outcome\<close>: the promise
  is rejected (a network failure, or the abort after 20 seconds), or it resolves to a
  response, whose \<open>json()\<close> yields a value or is rejected (\<open>None\<close>); and the arithmetic of
  the language on the values for which the embedding does not compute it (\<open>v + 1\<close>,
  \<open>v - 1\<close> and \<open>n < v\<close> for an integer \<open>n\<close>). The request URL is a function of the class
  and of the options, so the transport is given the options.
\<close>

datatype outcome = Rejected js_error | Responded response "jsval option"

record env =
  stringify :: "jsval \<Rightarrow> jsval"
  parse :: "jsval \<Rightarrow> jsval"
  transport :: "fetch_options \<Rightarrow> request_init \<Rightarrow> outcome"
  plus_one :: "jsval \<Rightarrow> jsval"
  minus_one :: "jsval \<Rightarrow> jsval"
  less_than :: "int \<Rightarrow> jsval \<Rightarrow> bool"

text \<open>
  \<open>count + 1\<close>, \<open>count - 1\<close> and \<open>length < count\<close>. A number is a double: on the integers
  from \<open>-2^53\<close> to \<open>2^53\<close> the sum and the difference are exact as long as they stay in
  that range, \<open>2^53 + 1\<close> is rounded to \<open>2^53\<close> and \<open>-2^53 - 1\<close> to \<open>-2^53\<close>; the
  comparison of two integers is exact. \<open>+\<close> on a string is concatenation. Every other
  case (a larger number, \<open>undefined\<close>, a string to convert to a number, an object) is
  left to the host.
\<close>

definition incr :: "env \<Rightarrow> jsval \<Rightarrow> jsval" where
  "incr en v =
     (case v of
        JNum n \<Rightarrow>
          if - (2 ^ 53) \<le> n \<and> n < 2 ^ 53 then JNum (n + 1)
          else if n = 2 ^ 53 then JNum n
          else plus_one en v
      | JStr s \<Rightarrow> JStr (s @ ''1'')
      | _ \<Rightarrow> plus_one en v)"

definition decr :: "env \<Rightarrow> jsval \<Rightarrow> jsval" where
  "decr en v =
     (case v of
        JNum n \<Rightarrow>
          if - (2 ^ 53) < n \<and> n \<le> 2 ^ 53 then JNum (n - 1)
          else if n = - (2 ^ 53) then JNum n
          else minus_one en v
      | _ \<Rightarrow> minus_one en v)"

definition js_less :: "env \<Rightarrow> int \<Rightarrow> jsval \<Rightarrow> bool" where
  "js_less en n v = (case v of JNum c \<Rightarrow> n < c | _ \<Rightarrow> less_than en n v)"

section \<open>Construction\<close>

text \<open>
  \<open>_buildValidator\<close>: one entry per schema field. The entry's flag \<open>checked\<close> is kept in
  the instance; its closure \<open>isValid\<close> is \<open>validator_isValid\<close> of the schema entry.
  \<open>Object.entries(false)\<close> is empty.
\<close>

definition buildValidator :: "model_class \<Rightarrow> (string \<times> bool) list" where
  "buildValidator cls =
     (case schema cls of
        None \<Rightarrow> []
      | Some sch \<Rightarrow> map (\<lambda>(fieldname, fieldconf). (fieldname, autoChecked fieldconf)) sch)"

definition validator_isValid :: "fieldconf \<Rightarrow> jsval \<Rightarrow> inst \<Rightarrow> bool" where
  "validator_isValid fieldconf v data =
     (let blank = isBlank (ftype fieldconf) v in
      ((blank \<and> allowBlank fieldconf v data) \<or>
       (\<not> blank \<and> t_isValid (ftype fieldconf) v)) \<and>
      f_isValid fieldconf v data)"

text \<open>
  \<open>_buildRawItem\<close>, called with a truthy schema \<open>sch\<close>. Reading \<open>defaultValue\<close> of a
  primary-key entry that the schema does not have is a \<open>TypeError\<close>.
\<close>

definition buildRawItem ::
  "model_class \<Rightarrow> (string \<times> fieldconf) list \<Rightarrow> jsval \<Rightarrow> js_error + (string \<times> jsval) list"
where
  "buildRawItem cls sch item =
     (case
        (if truthy (get_prop item ''primaryKey'') then Inr (get_prop item ''primaryKey'')
         else if truthy (get_prop item (pk_key cls)) then Inr (get_prop item (pk_key cls))
         else (case map_of sch (pk_key cls) of
                 None \<Rightarrow> Inl TypeError
               | Some fieldconf \<Rightarrow> Inr (defaultValue fieldconf Undefined)))
      of
        Inl e \<Rightarrow> Inl e
      | Inr pk \<Rightarrow>
          Inr (map (\<lambda>(fieldname, fieldconf).
                 (fieldname,
                  if Some fieldname = primaryKeyFieldname cls then pk
                  else if has item fieldname then get_prop item fieldname
                  else defaultValue fieldconf pk)) sch))"

text \<open>One turn of the loop "format existing fields recursively".\<close>

definition buildField :: "model_class \<Rightarrow> build_options \<Rightarrow> string \<times> jsval \<Rightarrow> string \<times> jsval" where
  "buildField cls options kv =
     (fst kv,
      case schema_field cls (fst kv) of
        Some fieldconf \<Rightarrow> beforeBuild (ftype fieldconf) (snd kv) options
      | None \<Rightarrow> snd kv)"

text \<open>
  The branch \<open>isObject(data)\<close> of the constructor. When \<open>data\<close> is itself an instance and
  no raw item is built, \<open>Object.entries(data)\<close> also yields its \<open>$restinfront\<close> and
  \<open>collection\<close>, which the loop assigns to the new object.
\<close>

definition buildItem :: "model_class \<Rightarrow> string \<Rightarrow> jsval \<Rightarrow> build_options \<Rightarrow> js_error + inst" where
  "buildItem cls cn data options =
     (let isN = (case o_isNew options of None \<Rightarrow> True | Some b \<Rightarrow> b);
          m = new_meta\<lparr>isNew := Some isN, validator := Some (buildValidator cls),
                       fetch_save := Some idle\<rparr>
      in case (isN, schema cls) of
           (True, Some sch) \<Rightarrow>
             (case buildRawItem cls sch data of
                Inl e \<Rightarrow> Inl e
              | Inr raw \<Rightarrow> Inr (Inst cn m Undefined None (map (buildField cls options) raw)))
         | _ \<Rightarrow>
             (case data of
                JModel src \<Rightarrow>
                  Inr (Inst cn (restinfront src) (count src) (collection src)
                         (map (buildField cls options) (props src)))
              | JObj kvs \<Rightarrow> Inr (Inst cn m Undefined None (map (buildField cls options) kvs))
              | _ \<Rightarrow> Inr (Inst cn m Undefined None [])))"

text \<open>
  The constructor \<open>new C(data, options)\<close> for the class named \<open>cn\<close>, together with the
  expression \<open>item instanceof this.constructor ? item : new this.constructor(item, options)\<close>
  of \<open>add\<close> (\<open>toInstance\<close>; an \<open>undefined\<close> item is the default \<open>{}\<close>) and the loop
  \<open>for (const item of data) this.add(item, options)\<close> (\<open>addEach\<close>). \<open>count\<close> starts at 0
  and every \<open>add\<close> of the loop increments it; \<open>options.count\<close> replaces it afterwards.
  Subclasses are not modelled: \<open>instanceof\<close> compares class names.
\<close>

fun construct :: "classes \<Rightarrow> env \<Rightarrow> string \<Rightarrow> jsval \<Rightarrow> build_options \<Rightarrow> js_error + inst"
  and toInstance :: "classes \<Rightarrow> env \<Rightarrow> string \<Rightarrow> jsval \<Rightarrow> build_options \<Rightarrow> js_error + inst"
  and addEach :: "classes \<Rightarrow> env \<Rightarrow> string \<Rightarrow> jsval list \<Rightarrow> build_options \<Rightarrow> js_error + inst list"
where
  "construct ct en cn (JArr xs) options =
     (case addEach ct en cn xs options of
        Inl e \<Rightarrow> Inl e
      | Inr its \<Rightarrow>
          Inr (Inst cn (new_meta\<lparr>isCollection := True\<rparr>)
                 (case o_count options of
                    None \<Rightarrow> (incr en ^^ length its) (JNum 0)
                  | Some c \<Rightarrow> c)
                 (Some its) []))"
| "construct ct en cn (JObj kvs) options = buildItem (ct cn) cn (JObj kvs) options"
| "construct ct en cn (JModel i) options = buildItem (ct cn) cn (JModel i) options"
| "construct ct en cn Undefined options = Inr (Inst cn new_meta Undefined None [])"
| "construct ct en cn Null options = Inr (Inst cn new_meta Undefined None [])"
| "construct ct en cn (JBool b) options = Inr (Inst cn new_meta Undefined None [])"
| "construct ct en cn (JNum n) options = Inr (Inst cn new_meta Undefined None [])"
| "construct ct en cn (JStr s) options = Inr (Inst cn new_meta Undefined None [])"
| "toInstance ct en cn Undefined options = buildItem (ct cn) cn (JObj []) options"
| "toInstance ct en cn (JModel i) options =
     (if cname i = cn then Inr i else buildItem (ct cn) cn (JModel i) options)"
| "toInstance ct en cn (JArr xs) options = construct ct en cn (JArr xs) options"
| "toInstance ct en cn (JObj kvs) options = buildItem (ct cn) cn (JObj kvs) options"
| "toInstance ct en cn Null options = Inr (Inst cn new_meta Undefined None [])"
| "toInstance ct en cn (JBool b) options = Inr (Inst cn new_meta Undefined None [])"
| "toInstance ct en cn (JNum n) options = Inr (Inst cn new_meta Undefined None [])"
| "toInstance ct en cn (JStr s) options = Inr (Inst cn new_meta Undefined None [])"
| "addEach ct en cn [] options = Inr []"
| "addEach ct en cn (item # rest) options =
     (case toInstance ct en cn item options of
        Inl e \<Rightarrow> Inl e
      | Inr instance \<Rightarrow>
          (case addEach ct en cn rest options of
             Inl e \<Rightarrow> Inl e
           | Inr its \<Rightarrow> Inr (instance # its)))"

section \<open>Collection methods\<close>

text \<open>
  \<open>items()\<close>: \<open>_allowCollection\<close> throws unless the instance is a collection. Every caller
  dereferences the result at once, so an absent \<open>collection\<close> property is the
  \<open>TypeError\<close> of that dereference.
\<close>

definition items :: "inst \<Rightarrow> js_error + inst list" where
  "items this =
     (if \<not> isCollection (restinfront this) then Inl (RestinfrontError MustBeCollection)
      else (case collection this of None \<Rightarrow> Inl TypeError | Some xs \<Rightarrow> Inr xs))"

text \<open>The getters \<open>length\<close> and \<open>hasMore\<close>.\<close>

definition length_of :: "inst \<Rightarrow> js_error + int" where
  "length_of this = (case items this of Inl e \<Rightarrow> Inl e | Inr xs \<Rightarrow> Inr (int (length xs)))"

definition hasMore :: "env \<Rightarrow> inst \<Rightarrow> js_error + bool" where
  "hasMore en this =
     (case length_of this of Inl e \<Rightarrow> Inl e | Inr n \<Rightarrow> Inr (js_less en n (count this)))"

text \<open>
  A reference as \<open>find\<close>, \<open>exists\<close>, \<open>remove\<close> and \<open>toggle\<close> take it: a function, or any
  other value. \<open>_getCollectionCallback\<close> has no branch for a value that is neither a
  string nor an object; it returns \<open>undefined\<close> then (\<open>None\<close>).
\<close>

datatype ref = RefFunction "inst \<Rightarrow> bool" | RefValue jsval

fun getCollectionCallback :: "model_class \<Rightarrow> ref \<Rightarrow> (inst \<Rightarrow> bool) option" where
  "getCollectionCallback cls (RefFunction f) = Some f"
| "getCollectionCallback cls (RefValue (JStr s)) =
     Some (\<lambda>item. strict_eq (inst_get item (pk_key cls)) (JStr s))"
| "getCollectionCallback cls (RefValue v) =
     (if isObject v
      then Some (\<lambda>item. strict_eq (inst_get item (pk_key cls)) (get_prop v (pk_key cls)))
      else None)"

text \<open>\<open>Array.prototype.findIndex\<close>, and \<open>splice(i, 1)\<close> as (removed, remaining).\<close>

fun findIndex :: "('a \<Rightarrow> bool) \<Rightarrow> 'a list \<Rightarrow> int" where
  "findIndex cb [] = - 1"
| "findIndex cb (x # xs) =
     (if cb x then 0 else (let i = findIndex cb xs in if i = - 1 then - 1 else i + 1))"

definition splice1 :: "nat \<Rightarrow> 'a list \<Rightarrow> 'a list \<times> 'a list" where
  "splice1 i xs = (take 1 (drop i xs), take i xs @ drop (Suc i) xs)"

text \<open>
  \<open>exists\<close> and \<open>find\<close>. Calling \<open>some\<close> or \<open>find\<close> with \<open>undefined\<close> is a \<open>TypeError\<close>.
\<close>

definition exists :: "classes \<Rightarrow> inst \<Rightarrow> ref \<Rightarrow> js_error + bool" where
  "exists ct this r =
     (case items this of
        Inl e \<Rightarrow> Inl e
      | Inr xs \<Rightarrow>
          (case getCollectionCallback (ct (cname this)) r of
             None \<Rightarrow> Inl TypeError
           | Some cb \<Rightarrow> Inr (list_ex cb xs)))"

definition find :: "classes \<Rightarrow> inst \<Rightarrow> ref \<Rightarrow> js_error + jsval" where
  "find ct this r =
     (case items this of
        Inl e \<Rightarrow> Inl e
      | Inr xs \<Rightarrow>
          (case getCollectionCallback (ct (cname this)) r of
             None \<Rightarrow> Inl TypeError
           | Some cb \<Rightarrow>
               Inr (case List.find cb xs of None \<Rightarrow> Null | Some x \<Rightarrow> JModel x)))"

text \<open>
  \<open>remove\<close> returns the value of \<open>this.items().splice(indexToRemove, 1)\<close>, paired here
  with the updated collection.
\<close>

definition remove :: "classes \<Rightarrow> env \<Rightarrow> inst \<Rightarrow> ref \<Rightarrow> js_error + (jsval \<times> inst)" where
  "remove ct en this r =
     (case items this of
        Inl e \<Rightarrow> Inl e
      | Inr xs \<Rightarrow>
          (case getCollectionCallback (ct (cname this)) r of
             None \<Rightarrow> Inl TypeError
           | Some cb \<Rightarrow>
               (let indexToRemove = findIndex cb xs in
                if indexToRemove = - 1 then Inr (Null, this)
                else
                  (let this1 = set_count (decr en (count this)) this;
                       (removed, remaining) = splice1 (nat indexToRemove) xs
                   in Inr (JArr (map JModel removed), setCollection this1 remaining)))))"

text \<open>\<open>add\<close> returns the instance, paired here with the updated collection.\<close>

definition add ::
  "classes \<Rightarrow> env \<Rightarrow> inst \<Rightarrow> jsval \<Rightarrow> build_options \<Rightarrow> js_error + (inst \<times> inst)"
where
  "add ct en this item options =
     (case toInstance ct en (cname this) item options of
        Inl e \<Rightarrow> Inl e
      | Inr instance \<Rightarrow>
          (case items this of
             Inl e \<Rightarrow> Inl e
           | Inr xs \<Rightarrow>
               Inr (instance,
                    set_count (incr en (count this))
                      (setCollection this (xs @ [instance])))))"

definition no_options :: build_options where
  "no_options = \<lparr>o_isNew = None, o_count = None\<rparr>"

text \<open>\<open>toggle(item, callback)\<close>: the reference is \<open>callback || item\<close>.\<close>

definition toggle ::
  "classes \<Rightarrow> env \<Rightarrow> inst \<Rightarrow> jsval \<Rightarrow> (inst \<Rightarrow> bool) option \<Rightarrow> js_error + (jsval \<times> inst)"
where
  "toggle ct en this item callback =
     (let r = (case callback of Some f \<Rightarrow> RefFunction f | None \<Rightarrow> RefValue item) in
      case exists ct this r of
        Inl e \<Rightarrow> Inl e
      | Inr True \<Rightarrow> remove ct en this r
      | Inr False \<Rightarrow>
          (case add ct en this item no_options of
             Inl e \<Rightarrow> Inl e
           | Inr (instance, this1) \<Rightarrow> Inr (JModel instance, this1)))"

text \<open>\<open>clear\<close> empties the array and leaves \<open>count\<close> alone.\<close>

definition clear :: "inst \<Rightarrow> js_error + inst" where
  "clear this = (case items this of Inl e \<Rightarrow> Inl e | Inr xs \<Rightarrow> Inr (setCollection this []))"


section \<open>Validation\<close>

text \<open>
  An entry of the list passed to \<open>valid\<close>: a field name, a pair of a field name and a
  nested list (or nothing), or anything else.
\<close>

datatype fielditem =
    FieldName string
  | FieldPair string "fielditem list option"
  | FieldOther

text \<open>The local variable \<open>associationErrors\<close>: declared without a value, a map or an array.\<close>

datatype association_errors =
    NotAssigned
  | ErrMap errmap
  | ErrArray "errmap list"

text \<open>\<open>this.$restinfront.validator[fieldname].checked = true\<close>.\<close>

definition set_checked :: "inst \<Rightarrow> string \<Rightarrow> js_error + inst" where
  "set_checked this fieldname =
     (case validator (restinfront this) of
        None \<Rightarrow> Inl TypeError
      | Some vt \<Rightarrow>
          (case map_of vt fieldname of
             None \<Rightarrow> Inl TypeError
           | Some c \<Rightarrow>
               Inr (set_meta (\<lambda>m. m\<lparr>validator := Some (AList.update fieldname True vt)\<rparr>) this)))"

text \<open>
  \<open>this.$restinfront.validator[fieldname].isValid(this[fieldname], this)\<close>. The closure is
  the one \<open>_buildValidator\<close> made from the schema entry of the instance's class.
\<close>

definition check_field :: "classes \<Rightarrow> inst \<Rightarrow> string \<Rightarrow> js_error + bool" where
  "check_field ct this fieldname =
     (case schema_field (ct (cname this)) fieldname of
        None \<Rightarrow> Inl TypeError
      | Some fieldconf \<Rightarrow> Inr (validator_isValid fieldconf (inst_get this fieldname) this))"

text \<open>The branch "validation for direct fields" of the loop of \<open>_getValidationErrors\<close>.\<close>

definition validateLeaf :: "classes \<Rightarrow> string \<Rightarrow> inst \<Rightarrow> errmap \<Rightarrow> (js_error + errmap) \<times> inst" where
  "validateLeaf ct fieldname this errors =
     (if has (JModel this) fieldname then
        (case set_checked this fieldname of
           Inl e \<Rightarrow> (Inl e, this)
         | Inr this1 \<Rightarrow>
             (case check_field ct this1 fieldname of
                Inl e \<Rightarrow> (Inl e, this1)
              | Inr False \<Rightarrow>
                  (Inr (AList.update fieldname (NOT_VALID (inst_get this1 fieldname)) errors), this1)
              | Inr True \<Rightarrow> (Inr errors, this1)))
      else (Inr (AList.update fieldname NOT_FOUND errors), this))"

text \<open>
  The test \<open>associationErrors.length > 0 || associationErrors.size > 0\<close> and the
  \<open>errors.set\<close> it guards. Reading \<open>length\<close> of \<open>undefined\<close> is a \<open>TypeError\<close>.
\<close>

definition recordAssociation :: "string \<Rightarrow> association_errors \<Rightarrow> errmap \<Rightarrow> js_error + errmap" where
  "recordAssociation fieldname associationErrors errors =
     (case associationErrors of
        NotAssigned \<Rightarrow> Inl TypeError
      | ErrMap m \<Rightarrow> Inr (if m \<noteq> [] then AList.update fieldname (Errors m) errors else errors)
      | ErrArray ms \<Rightarrow>
          Inr (if ms \<noteq> [] then AList.update fieldname (ErrorsList ms) errors else errors))"

text \<open>
  \<open>_getValidationErrors\<close>. \<open>validateFields\<close> is the loop over the list, with the map
  \<open>errors\<close> built so far; \<open>validateItem\<close> is one turn of it; \<open>validateEach\<close> is the
  \<open>map\<close> over the items of a \<open>HasMany\<close> collection. Each returns the instance as the
  calls left it, also when they raise. The call \<open>this._getValidationErrors([fieldname])\<close>
  of a pair without a nested list is \<open>validateLeaf\<close> on an empty map. The value of a
  \<open>HasMany\<close> field is a collection instance.
\<close>

fun validateFields :: "classes \<Rightarrow> fielditem list \<Rightarrow> inst \<Rightarrow> errmap \<Rightarrow> (js_error + errmap) \<times> inst"
  and validateItem :: "classes \<Rightarrow> fielditem \<Rightarrow> inst \<Rightarrow> errmap \<Rightarrow> (js_error + errmap) \<times> inst"
  and validateEach :: "classes \<Rightarrow> fielditem list \<Rightarrow> inst list \<Rightarrow> (js_error + errmap list) \<times> inst list"
where
  "validateFields ct [] this errors = (Inr errors, this)"
| "validateFields ct (fielditem # rest) this errors =
     (case validateItem ct fielditem this errors of
        (Inl e, this1) \<Rightarrow> (Inl e, this1)
      | (Inr errors1, this1) \<Rightarrow> validateFields ct rest this1 errors1)"
| "validateItem ct (FieldName fieldname) this errors = validateLeaf ct fieldname this errors"
| "validateItem ct (FieldPair fieldname None) this errors =
     (if has (JModel this) fieldname then
        (case set_checked this fieldname of
           Inl e \<Rightarrow> (Inl e, this)
         | Inr this1 \<Rightarrow>
             (case validateLeaf ct fieldname this1 [] of
                (Inl e, this2) \<Rightarrow> (Inl e, this2)
              | (Inr m, this2) \<Rightarrow> (recordAssociation fieldname (ErrMap m) errors, this2)))
      else (Inr (AList.update fieldname NOT_FOUND errors), this))"
| "validateItem ct (FieldPair fieldname (Some fieldlist)) this errors =
     (if has (JModel this) fieldname then
        (case set_checked this fieldname of
           Inl e \<Rightarrow> (Inl e, this)
         | Inr this1 \<Rightarrow>
             (case schema_field (ct (cname this1)) fieldname of
                None \<Rightarrow> (Inl TypeError, this1)
              | Some fieldconf \<Rightarrow>
                  (if association (ftype fieldconf) = Some ''BelongsTo'' \<or>
                      association (ftype fieldconf) = Some ''HasOne''
                   then
                     (case inst_get this1 fieldname of
                        Null \<Rightarrow> (recordAssociation fieldname NotAssigned errors, this1)
                      | JModel sub \<Rightarrow>
                          (case validateFields ct fieldlist sub [] of
                             (Inl e, sub1) \<Rightarrow> (Inl e, set_prop this1 fieldname (JModel sub1))
                           | (Inr m, sub1) \<Rightarrow>
                               (recordAssociation fieldname (ErrMap m) errors,
                                set_prop this1 fieldname (JModel sub1)))
                      | _ \<Rightarrow> (Inl TypeError, this1))
                   else if association (ftype fieldconf) = Some ''HasMany'' then
                     (case inst_get this1 fieldname of
                        JModel sub \<Rightarrow>
                          (case items sub of
                             Inl e \<Rightarrow> (Inl e, this1)
                           | Inr xs \<Rightarrow>
                               (case validateEach ct fieldlist xs of
                                  (Inl e, xs1) \<Rightarrow>
                                    (Inl e, set_prop this1 fieldname (JModel (setCollection sub xs1)))
                                | (Inr ms, xs1) \<Rightarrow>
                                    (recordAssociation fieldname
                                       (ErrArray (filter (\<lambda>m. m \<noteq> []) ms)) errors,
                                     set_prop this1 fieldname (JModel (setCollection sub xs1)))))
                      | _ \<Rightarrow> (Inl TypeError, this1))
                   else (recordAssociation fieldname NotAssigned errors, this1))))
      else (Inr (AList.update fieldname NOT_FOUND errors), this))"
| "validateItem ct FieldOther this errors = (Inl (RestinfrontError ValidSyntax), this)"
| "validateEach ct fieldlist [] = (Inr [], [])"
| "validateEach ct fieldlist (item # rest) =
     (case validateFields ct fieldlist item [] of
        (Inl e, item1) \<Rightarrow> (Inl e, item1 # rest)
      | (Inr m, item1) \<Rightarrow>
          (case validateEach ct fieldlist rest of
             (Inl e, rest1) \<Rightarrow> (Inl e, item1 # rest1)
           | (Inr ms, rest1) \<Rightarrow> (Inr (m # ms), item1 # rest1)))"

definition getValidationErrors :: "classes \<Rightarrow> inst \<Rightarrow> fielditem list \<Rightarrow> (js_error + errmap) \<times> inst" where
  "getValidationErrors ct this fieldlist = validateFields ct fieldlist this []"

text \<open>What the instance does to the world outside: the callbacks and the network request.\<close>

datatype event =
    ValidationErrorEvent errmap
  | FetchErrorEvent js_error "response option"
  | RequestEvent fetch_options request_init

text \<open>
  \<open>valid(fieldlist)\<close>, for a \<open>fieldlist\<close> that is an array. The save flags it resets are
  those at \<open>$restinfront.fetch.save\<close>. An error that \<open>onValidationError\<close> raises leaves
  \<open>valid\<close>.
\<close>

definition valid ::
  "classes \<Rightarrow> inst \<Rightarrow> fielditem list \<Rightarrow> event list \<Rightarrow> (js_error + bool) \<times> inst \<times> event list"
where
  "valid ct this fieldlist log =
     (if isCollection (restinfront this) then (Inl (RestinfrontError CannotBeCollection), this, log)
      else
        (case fetch_save (restinfront this) of
           None \<Rightarrow> (Inl TypeError, this, log)
         | Some s \<Rightarrow>
             (case getValidationErrors ct
                     (set_meta (\<lambda>m. m\<lparr>fetch_save :=
                        Some (s\<lparr>op_progressing := False, op_succeeded := False,
                                 op_failed := False\<rparr>)\<rparr>) this)
                     fieldlist of
                (Inl e, this1) \<Rightarrow> (Inl e, this1, log)
              | (Inr errors, this1) \<Rightarrow>
                  (if errors \<noteq> [] then
                     (case onValidationError (ct (cname this)) errors of
                        Some e \<Rightarrow> (Inl e, this1, log @ [ValidationErrorEvent errors])
                      | None \<Rightarrow> (Inr False, this1, log @ [ValidationErrorEvent errors]))
                   else (Inr True, this1, log)))))"


section \<open>Serialization\<close>

text \<open>
  The loop of \<open>_beforeSerializeItem\<close> over the entries of the validator table, \<open>newItem\<close>
  being the object built so far. The validator's closure is called only when
  \<open>removeInvalid\<close> and \<open>checked\<close> hold; \<open>this.constructor.schema[fieldname].type\<close> is a
  \<open>TypeError\<close> when the schema has no such entry.
\<close>

fun serializeFields ::
  "classes \<Rightarrow> inst \<Rightarrow> ser_options \<Rightarrow> (string \<times> bool) list \<Rightarrow> (string \<times> jsval) list
     \<Rightarrow> js_error + (string \<times> jsval) list"
where
  "serializeFields ct this options [] newItem = Inr newItem"
| "serializeFields ct this options ((fieldname, checked) # rest) newItem =
     (let rmInvalid = (case removeInvalid options of None \<Rightarrow> False | Some b \<Rightarrow> b);
          v = inst_get this fieldname
      in
        if \<not> rmInvalid \<or> checked then
          (case schema_field (ct (cname this)) fieldname of
             None \<Rightarrow> Inl TypeError
           | Some fieldconf \<Rightarrow>
               (if \<not> rmInvalid \<or> validator_isValid fieldconf v this
                then serializeFields ct this options rest
                       (AList.update fieldname (t_beforeSerialize (ftype fieldconf) v options) newItem)
                else serializeFields ct this options rest newItem))
        else serializeFields ct this options rest newItem)"

definition beforeSerializeItem :: "classes \<Rightarrow> inst \<Rightarrow> ser_options \<Rightarrow> js_error + (string \<times> jsval) list" where
  "beforeSerializeItem ct this options =
     (case validator (restinfront this) of
        None \<Rightarrow> Inl TypeError
      | Some vt \<Rightarrow> serializeFields ct this options vt [])"

fun serializeEach :: "classes \<Rightarrow> ser_options \<Rightarrow> inst list \<Rightarrow> js_error + jsval list" where
  "serializeEach ct options [] = Inr []"
| "serializeEach ct options (item # rest) =
     (case beforeSerializeItem ct item options of
        Inl e \<Rightarrow> Inl e
      | Inr obj \<Rightarrow>
          (case serializeEach ct options rest of
             Inl e \<Rightarrow> Inl e
           | Inr objs \<Rightarrow> Inr (JObj obj # objs)))"

definition beforeSerialize :: "classes \<Rightarrow> inst \<Rightarrow> ser_options \<Rightarrow> js_error + jsval" where
  "beforeSerialize ct this options =
     (if isCollection (restinfront this) then
        (case items this of
           Inl e \<Rightarrow> Inl e
         | Inr xs \<Rightarrow>
             (case serializeEach ct options xs of Inl e \<Rightarrow> Inl e | Inr objs \<Rightarrow> Inr (JArr objs)))
      else
        (case beforeSerializeItem ct this options of Inl e \<Rightarrow> Inl e | Inr obj \<Rightarrow> Inr (JObj obj)))"

text \<open>
  \<open>JSON.name(v)\<close>: the object \<open>JSON\<close> has the methods \<open>parse\<close> and \<open>stringify\<close>; calling a
  property it does not have is a \<open>TypeError\<close>, raised after the argument was evaluated.
\<close>

definition JSON_property :: "env \<Rightarrow> string \<Rightarrow> (jsval \<Rightarrow> jsval) option" where
  "JSON_property en name =
     (if name = ''parse'' then Some (parse en)
      else if name = ''stringify'' then Some (stringify en)
      else None)"

definition JSON_call :: "env \<Rightarrow> string \<Rightarrow> jsval \<Rightarrow> js_error + jsval" where
  "JSON_call en name v =
     (case JSON_property en name of None \<Rightarrow> Inl TypeError | Some f \<Rightarrow> Inr (f v))"

definition toJSON :: "classes \<Rightarrow> env \<Rightarrow> inst \<Rightarrow> js_error + jsval" where
  "toJSON ct en this =
     (case beforeSerialize ct this \<lparr>removeInvalid = None\<rparr> of
        Inl e \<Rightarrow> Inl e
      | Inr v \<Rightarrow> JSON_call en ''stringyfy'' v)"

section \<open>Mutation merge\<close>

text \<open>The loop \<open>newData.forEach(newItem => this.add(newItem))\<close>.\<close>

fun addAll :: "classes \<Rightarrow> env \<Rightarrow> inst \<Rightarrow> inst list \<Rightarrow> js_error option \<times> inst" where
  "addAll ct en this [] = (None, this)"
| "addAll ct en this (newItem # rest) =
     (case add ct en this (JModel newItem) no_options of
        Inl e \<Rightarrow> (Some e, this)
      | Inr (instance, this1) \<Rightarrow> addAll ct en this1 rest)"

text \<open>
  \<open>_mutateData\<close>. It returns the instance as the merge left it, with the error if it
  raised. In the item branch \<open>Object.entries(newData)\<close> yields \<open>$restinfront\<close>, then
  \<open>collection\<close> if \<open>newData\<close> has that property, then the fields (\<open>mutateFields\<close>). A
  value has the property \<open>$restinfront\<close> exactly when it is an instance.
\<close>

fun mutateData :: "classes \<Rightarrow> env \<Rightarrow> inst \<Rightarrow> inst \<Rightarrow> js_error option \<times> inst"
  and mutateFields ::
    "classes \<Rightarrow> env \<Rightarrow> inst \<Rightarrow> (string \<times> jsval) list \<Rightarrow> js_error option \<times> inst"
where
  "mutateData ct en this (Inst cn m newCount c ps) =
     (if isCollection m then
        (case (case fetch_options (restinfront this) of
                 None \<Rightarrow> False
               | Some options \<Rightarrow> fo_extend options) of
           True \<Rightarrow>
             (case c of
                None \<Rightarrow> (Some TypeError, this)
              | Some newItems \<Rightarrow>
                  (case addAll ct en this newItems of
                     (Some e, this1) \<Rightarrow> (Some e, this1)
                   | (None, this1) \<Rightarrow> (None, set_count newCount this1)))
         | False \<Rightarrow>
             (None, Inst (cname this) (restinfront this) newCount c (props this)))
      else
        mutateFields ct en
          (let this1 = set_meta (\<lambda>m1. m1\<lparr>isNew := isNew m\<rparr>) this in
           case c of None \<Rightarrow> this1 | Some xs \<Rightarrow> setCollection this1 xs)
          ps)"
| "mutateFields ct en this [] = (None, this)"
| "mutateFields ct en this ((key, v) # rest) =
     (case v of
        JModel new \<Rightarrow>
          (case inst_get this key of
             JModel cur \<Rightarrow>
               (case mutateData ct en cur new of
                  (Some e, cur1) \<Rightarrow> (Some e, set_prop this key (JModel cur1))
                | (None, cur1) \<Rightarrow> mutateFields ct en (set_prop this key (JModel cur1)) rest)
           | _ \<Rightarrow> mutateFields ct en (set_prop this key v) rest)
      | _ \<Rightarrow> mutateFields ct en (set_prop this key v) rest)"

section \<open>HTTP\<close>

text \<open>
  The argument of the call that is to build the body: "extract validated data only",
  \<open>this.beforeSerialize({ removeInvalid: true })\<close>.
\<close>

definition request_payload :: "classes \<Rightarrow> inst \<Rightarrow> js_error + jsval" where
  "request_payload ct this = beforeSerialize ct this \<lparr>removeInvalid = Some True\<rparr>"

text \<open>
  \<open>_buildRequestInit({method, signal})\<close>. The header \<open>Authorization\<close> is \<open>Bearer\<close> followed
  by the token; the record keeps the token. The body is what the call
  \<open>JSON.stringyfy(this.beforeSerialize({removeInvalid: true}))\<close> returns.
\<close>

definition buildRequestInit :: "classes \<Rightarrow> env \<Rightarrow> inst \<Rightarrow> string \<Rightarrow> js_error + request_init" where
  "buildRequestInit ct en this meth =
     (case
        (case authentication (ct (cname this)) of
           None \<Rightarrow> Inr None
         | Some token \<Rightarrow>
             if \<not> truthy token then Inl (RestinfrontError (InvalidToken token))
             else Inr (Some token))
      of
        Inl e \<Rightarrow> Inl e
      | Inr bearer \<Rightarrow>
          (let requestInit =
                 \<lparr>ri_method = meth, ri_mode = ''cors'', ri_content_type = ''application/json'',
                  ri_bearer = bearer, ri_body = None\<rparr>
           in
             if meth = ''POST'' \<or> meth = ''PUT'' \<or> meth = ''PATCH'' then
               (case request_payload ct this of
                  Inl e \<Rightarrow> Inl e
                | Inr v \<Rightarrow>
                    (case JSON_call en ''stringyfy'' v of
                       Inl e \<Rightarrow> Inl e
                     | Inr body \<Rightarrow> Inr (requestInit\<lparr>ri_body := Some body\<rparr>)))
             else Inr requestInit))"

text \<open>
  An assignment to the sub-state of the operation class: \<open>states.get\<close> when the method is
  \<open>GET\<close>, \<open>states.save\<close> otherwise. Writing a property of \<open>states.save\<close> while it is
  \<open>undefined\<close> is a \<open>TypeError\<close>.
\<close>

definition set_op :: "fetch_options \<Rightarrow> (op_states \<Rightarrow> op_states) \<Rightarrow> inst \<Rightarrow> js_error + inst" where
  "set_op options f this =
     (if fo_method options = ''GET''
      then Inr (set_meta (\<lambda>m. m\<lparr>states := (states m)\<lparr>states_get := f (states_get (states m))\<rparr>\<rparr>) this)
      else
        (case states_save (states (restinfront this)) of
           None \<Rightarrow> Inl TypeError
         | Some s \<Rightarrow>
             Inr (set_meta (\<lambda>m. m\<lparr>states := (states m)\<lparr>states_save := Some (f s)\<rparr>\<rparr>) this)))"

text \<open>"Reset fetch memoization" and "reset fetch states" (the global flags).\<close>

definition fetch_reset :: "fetch_options \<Rightarrow> inst \<Rightarrow> inst" where
  "fetch_reset options this =
     set_meta (\<lambda>m. m\<lparr>fetch_options := Some options, fetch_response := None,
                       states := (states m)\<lparr>progressing := True, failed := False,
                                            succeeded := False\<rparr>\<rparr>) this"

text \<open>
  The \<open>catch\<close> block: the call of \<open>onFetchError\<close>, then the failure flags. An error raised
  inside it, by the callback or by the write to \<open>states.save\<close>, leaves \<open>fetch\<close>.
\<close>

definition fetch_catch ::
  "classes \<Rightarrow> fetch_options \<Rightarrow> js_error \<Rightarrow> inst \<Rightarrow> event list
     \<Rightarrow> js_error option \<times> inst \<times> event list"
where
  "fetch_catch ct options error this log =
     (let log1 = log @ [FetchErrorEvent error (fetch_response (restinfront this))] in
      case onFetchError (ct (cname this)) error (fetch_response (restinfront this)) of
        Some e \<Rightarrow> (Some e, this, log1)
      | None \<Rightarrow>
          (let this1 = set_meta (\<lambda>m. m\<lparr>states := (states m)\<lparr>failed := True\<rparr>\<rparr>) this in
           case set_op options (\<lambda>s. s\<lparr>op_failed := True\<rparr>) this1 of
             Inl e \<Rightarrow> (Some e, this1, log1)
           | Inr this2 \<Rightarrow> (None, this2, log1)))"

text \<open>The \<open>try\<close> statement: the request, the status test, the success flags.\<close>

definition fetch_try ::
  "classes \<Rightarrow> env \<Rightarrow> fetch_options \<Rightarrow> request_init \<Rightarrow> inst \<Rightarrow> event list
     \<Rightarrow> js_error option \<times> inst \<times> event list"
where
  "fetch_try ct en options requestInit this log =
     (let log1 = log @ [RequestEvent options requestInit] in
      case transport en options requestInit of
        Rejected error \<Rightarrow> fetch_catch ct options error this log1
      | Responded resp body \<Rightarrow>
          (let this1 = set_meta (\<lambda>m. m\<lparr>fetch_response := Some resp\<rparr>) this in
           if \<not> ok resp
           then fetch_catch ct options (RestinfrontError (ErrorStatus (status resp))) this1 log1
           else
             (let this2 = set_meta (\<lambda>m. m\<lparr>states := (states m)\<lparr>succeeded := True,
                                                   succeededOnce := True\<rparr>\<rparr>) this1
              in case set_op options (\<lambda>s. s\<lparr>op_succeeded := True\<rparr>) this2 of
                   Inl e \<Rightarrow> fetch_catch ct options e this2 log1
                 | Inr this3 \<Rightarrow> (None, this3, log1))))"

text \<open>
  The property key a value is converted to (\<open>ToPropertyKey\<close>), for the key that
  \<open>has(serverData, this.collectionCountKey)\<close> passes: \<open>this.collectionCountKey\<close> reads a
  property of the instance, not the static property of the class.
\<close>

fun digits :: "nat \<Rightarrow> string" where
  "digits n =
     (if n < 10 then [char_of (48 + n)] else digits (n div 10) @ [char_of (48 + n mod 10)])"

fun to_property_key :: "jsval \<Rightarrow> string" and join_elements :: "jsval list \<Rightarrow> string" where
  "to_property_key Undefined = ''undefined''"
| "to_property_key Null = ''null''"
| "to_property_key (JBool b) = (if b then ''true'' else ''false'')"
| "to_property_key (JNum n) = (if n < 0 then ''-'' @ digits (nat (- n)) else digits (nat n))"
| "to_property_key (JStr s) = s"
| "to_property_key (JArr xs) = join_elements xs"
| "to_property_key (JObj kvs) = ''[object Object]''"
| "to_property_key (JModel i) = ''[object Object]''"
| "join_elements [] = []"
| "join_elements (x # xs) =
     (if x = Undefined \<or> x = Null then [] else to_property_key x)
       @ (if xs = [] then [] else '','' @ join_elements xs)"

text \<open>
  "Process server data if fetch is successful": \<open>body\<close> is what \<open>json()\<close> of the response
  just stored yields. The test for a page reads the two keys from the instance; the
  unwrapping reads them from the class.
\<close>

definition fetch_process ::
  "classes \<Rightarrow> env \<Rightarrow> inst \<Rightarrow> jsval option \<Rightarrow> js_error option \<times> inst"
where
  "fetch_process ct en this body =
     (if succeeded (states (restinfront this)) then
        (case body of
           None \<Rightarrow> (Some SyntaxError, this)
         | Some serverData \<Rightarrow>
             (let paged =
                    (has serverData (to_property_key (inst_get this ''collectionCountKey'')) \<and>
                     has serverData (to_property_key (inst_get this ''collectionDataKey'')));
                  data =
                    (if paged then get_prop serverData (collectionDataKey (ct (cname this)))
                     else serverData);
                  dataOptions =
                    \<lparr>o_isNew = Some False,
                     o_count =
                       (if paged
                        then Some (get_prop serverData (collectionCountKey (ct (cname this))))
                        else None)\<rparr>
              in case construct ct en (cname this) data dataOptions of
                   Inl e \<Rightarrow> (Some e, this)
                 | Inr formattedData \<Rightarrow> mutateData ct en this formattedData))
      else (None, this))"

definition response_body :: "outcome \<Rightarrow> jsval option" where
  "response_body out = (case out of Rejected e \<Rightarrow> None | Responded resp body \<Rightarrow> body)"

text \<open>
  \<open>fetch(options)\<close>: the error it raised (the promise it returns is rejected with it), if
  any, the instance as it left it, and the event log.
\<close>

definition fetch ::
  "classes \<Rightarrow> env \<Rightarrow> inst \<Rightarrow> fetch_options \<Rightarrow> event list \<Rightarrow> js_error option \<times> inst \<times> event list"
where
  "fetch ct en this options log =
     (if endpoint (ct (cname this)) = [] then (Some (RestinfrontError EndpointRequired), this, log)
      else
        (case set_op options
                (\<lambda>s. s\<lparr>op_progressing := True, op_failed := False, op_succeeded := False\<rparr>)
                (fetch_reset options this) of
           Inl e \<Rightarrow> (Some e, fetch_reset options this, log)
         | Inr this1 \<Rightarrow>
             (case buildRequestInit ct en this1 (fo_method options) of
                Inl e \<Rightarrow> (Some e, this1, log)
              | Inr requestInit \<Rightarrow>
                  (case fetch_try ct en options requestInit this1 log of
                     (Some e, this2, log1) \<Rightarrow> (Some e, this2, log1)
                   | (None, this2, log1) \<Rightarrow>
                       (case fetch_process ct en this2
                               (response_body (transport en options requestInit)) of
                          (Some e, this3) \<Rightarrow> (Some e, this3, log1)
                        | (None, this3) \<Rightarrow>
                            (case set_op options (\<lambda>s. s\<lparr>op_progressing := False\<rparr>) this3 of
                               Inl e \<Rightarrow> (Some e, this3, log1)
                             | Inr this4 \<Rightarrow> (None, this4, log1)))))))"


section \<open>Observations and runs\<close>

text \<open>The getter \<open>$fetch\<close>.\<close>

abbreviation fetchStates :: "inst \<Rightarrow> fetch_states" where
  "fetchStates this \<equiv> states (restinfront this)"

text \<open>The sub-state of the operation class of a request, if the instance has it.\<close>

definition op_state :: "fetch_options \<Rightarrow> inst \<Rightarrow> op_states option" where
  "op_state options this =
     (if fo_method options = ''GET'' then Some (states_get (fetchStates this))
      else states_save (fetchStates this))"

text \<open>
  A request fails when its promise is rejected (the abort of the timeout included) or the
  response is not \<open>ok\<close>, that is, its status is outside 200..299.
\<close>

definition failure :: "outcome \<Rightarrow> bool" where
  "failure out = (case out of Rejected e \<Rightarrow> True | Responded resp body \<Rightarrow> \<not> ok resp)"

text \<open>What the \<open>catch\<close> block passes to \<open>onFetchError\<close> for a request that failed.\<close>

definition reported_error :: "outcome \<Rightarrow> js_error" where
  "reported_error out =
     (case out of
        Rejected e \<Rightarrow> e
      | Responded resp body \<Rightarrow> RestinfrontError (ErrorStatus (status resp)))"

definition reported_response :: "outcome \<Rightarrow> response option" where
  "reported_response out = (case out of Rejected e \<Rightarrow> None | Responded resp body \<Rightarrow> Some resp)"

text \<open>
  One operation on an instance, from the state before it to the state after it, whatever
  its arguments, whatever the server answers and whether it returned or raised. \<open>get\<close>,
  \<open>getMore\<close>, \<open>post\<close>, \<open>put\<close>, \<open>patch\<close> and \<open>save\<close> are calls of \<open>fetch\<close> with options
  of their own.
\<close>

inductive step :: "classes \<Rightarrow> inst \<Rightarrow> inst \<Rightarrow> bool" for ct :: classes where
  step_fetch: "fetch ct en this options log = (r, this1, log1) \<Longrightarrow> step ct this this1"
| step_valid: "valid ct this fieldlist log = (b, this1, log1) \<Longrightarrow> step ct this this1"
| step_add: "add ct en this item bo = Inr (instance, this1) \<Longrightarrow> step ct this this1"
| step_remove: "remove ct en this rf = Inr (v, this1) \<Longrightarrow> step ct this this1"
| step_toggle: "toggle ct en this item callback = Inr (v, this1) \<Longrightarrow> step ct this this1"
| step_clear: "clear this = Inr this1 \<Longrightarrow> step ct this this1"
| step_mutateData: "mutateData ct en this newData = (e, this1) \<Longrightarrow> step ct this this1"

text \<open>
  For an entry of the validator table: whether the field is checked and currently valid,
  and the property that \<open>_beforeSerializeItem\<close> writes for it.
\<close>

definition sent :: "classes \<Rightarrow> inst \<Rightarrow> string \<times> bool \<Rightarrow> bool" where
  "sent ct this entry =
     (snd entry \<and>
      (case schema_field (ct (cname this)) (fst entry) of
         None \<Rightarrow> False
       | Some fieldconf \<Rightarrow> validator_isValid fieldconf (inst_get this (fst entry)) this))"

definition serialized :: "classes \<Rightarrow> inst \<Rightarrow> ser_options \<Rightarrow> string \<times> bool \<Rightarrow> string \<times> jsval" where
  "serialized ct this options entry =
     (fst entry,
      case schema_field (ct (cname this)) (fst entry) of
        None \<Rightarrow> Undefined
      | Some fieldconf \<Rightarrow>
          t_beforeSerialize (ftype fieldconf) (inst_get this (fst entry)) options)"

section \<open>Example models\<close>

text \<open>
  Two field types in the manner of the README's \<open>FieldTypes\<close>, and five model classes:
  \<open>Plan\<close> (public, with an endpoint), \<open>User\<close> (with a \<open>BelongsTo\<close> association),
  \<open>Account\<close> (private: its token provider resolves to \<open>null\<close>), \<open>Base\<close> (no endpoint, as
  the README's \<open>BaseModel\<close>) and \<open>Ticket\<close>, configured with the README's callback
  \<open>onFetchError: (response) => { console.warn('[Restinfront][Fetch]', error) }\<close>, which
  reads the unbound name \<open>error\<close> and so raises a \<open>ReferenceError\<close>. The others have
  the default callbacks.
\<close>

definition STRING :: fieldtype where
  "STRING =
     \<lparr>isBlank = (\<lambda>v. v = Undefined \<or> v = Null \<or> v = JStr []),
      t_isValid = (\<lambda>v. case v of JStr s \<Rightarrow> True | _ \<Rightarrow> False),
      beforeBuild = (\<lambda>v options. v),
      t_beforeSerialize = (\<lambda>v options. v),
      association = None\<rparr>"

definition BELONGSTO :: fieldtype where
  "BELONGSTO =
     \<lparr>isBlank = (\<lambda>v. v = Undefined \<or> v = Null),
      t_isValid = (\<lambda>v. case v of JModel i \<Rightarrow> True | _ \<Rightarrow> False),
      beforeBuild = (\<lambda>v options. v),
      t_beforeSerialize = (\<lambda>v options. v),
      association = Some ''BelongsTo''\<rparr>"

definition field_of :: "fieldtype \<Rightarrow> bool \<Rightarrow> jsval \<Rightarrow> fieldconf" where
  "field_of t pk dv =
     \<lparr>ftype = t, primaryKey = pk, defaultValue = (\<lambda>k. dv),
      allowBlank = (\<lambda>v data. False), f_isValid = (\<lambda>v data. True), autoChecked = pk\<rparr>"

definition Plan :: model_class where
  "Plan =
     \<lparr>baseUrl = ''https://api.example.com/public'', endpoint = ''/plans'',
      authentication = None,
      schema = Some [(''id'', field_of STRING True (JStr ''p0'')),
                     (''name'', field_of STRING False (JStr []))],
      primaryKeyFieldname = Some ''id'',
      collectionDataKey = ''rows'', collectionCountKey = ''count'',
      onValidationError = (\<lambda>errors. None), onFetchError = (\<lambda>error resp. None)\<rparr>"

definition User :: model_class where
  "User =
     \<lparr>baseUrl = ''https://api.example.com/public'', endpoint = ''/users'',
      authentication = None,
      schema = Some [(''id'', field_of STRING True (JStr ''u0'')),
                     (''firstName'', field_of STRING False (JStr [])),
                     (''sponsor'', field_of BELONGSTO False Null)],
      primaryKeyFieldname = Some ''id'',
      collectionDataKey = ''rows'', collectionCountKey = ''count'',
      onValidationError = (\<lambda>errors. None), onFetchError = (\<lambda>error resp. None)\<rparr>"

definition Account :: model_class where
  "Account =
     \<lparr>baseUrl = ''https://api.example.com/private'', endpoint = ''/accounts'',
      authentication = Some Null,
      schema = Some [(''id'', field_of STRING True (JStr ''a0''))],
      primaryKeyFieldname = Some ''id'',
      collectionDataKey = ''rows'', collectionCountKey = ''count'',
      onValidationError = (\<lambda>errors. None), onFetchError = (\<lambda>error resp. None)\<rparr>"

definition Base :: model_class where
  "Base =
     \<lparr>baseUrl = [], endpoint = [], authentication = None, schema = None,
      primaryKeyFieldname = None,
      collectionDataKey = ''rows'', collectionCountKey = ''count'',
      onValidationError = (\<lambda>errors. None), onFetchError = (\<lambda>error resp. None)\<rparr>"

definition Ticket :: model_class where
  "Ticket =
     \<lparr>baseUrl = ''https://api.example.com/public'', endpoint = ''/tickets'',
      authentication = None,
      schema = Some [(''id'', field_of STRING True (JStr ''t0''))],
      primaryKeyFieldname = Some ''id'',
      collectionDataKey = ''rows'', collectionCountKey = ''count'',
      onValidationError = (\<lambda>errors. None),
      onFetchError = (\<lambda>error resp. Some ReferenceError)\<rparr>"

definition models :: classes where
  "models cn =
     (if cn = ''User'' then User
      else if cn = ''Account'' then Account
      else if cn = ''Base'' then Base
      else if cn = ''Ticket'' then Ticket
      else Plan)"

text \<open>
  \<open>new Plan([])\<close> and \<open>new Plan([{id: 'a'}])\<close>, with the item of the latter; the empty
  collection with the total \<open>2^53\<close> (\<open>new Plan([], {count: 9007199254740992})\<close>); and the
  item that \<open>add({id: ''})\<close> builds, whose empty key \<open>_buildRawItem\<close> replaces by the
  default.
\<close>

definition plans_empty :: inst where
  "plans_empty = Inst ''Plan'' (new_meta\<lparr>isCollection := True\<rparr>) (JNum 0) (Some []) []"

definition plans_huge :: inst where
  "plans_huge = Inst ''Plan'' (new_meta\<lparr>isCollection := True\<rparr>) (JNum (2 ^ 53)) (Some []) []"

definition plan_default :: inst where
  "plan_default =
     Inst ''Plan''
       (new_meta\<lparr>isNew := Some True, validator := Some [(''id'', True), (''name'', False)],
                 fetch_save := Some idle\<rparr>)
       Undefined None [(''id'', JStr ''p0''), (''name'', JStr [])]"

definition plan_a :: inst where
  "plan_a =
     Inst ''Plan''
       (new_meta\<lparr>isNew := Some True, validator := Some [(''id'', True), (''name'', False)],
                 fetch_save := Some idle\<rparr>)
       Undefined None [(''id'', JStr ''a''), (''name'', JStr [])]"

definition plans_one :: inst where
  "plans_one = Inst ''Plan'' (new_meta\<lparr>isCollection := True\<rparr>) (JNum 1) (Some [plan_a]) []"

text \<open>The collections after \<open>add({id: 'b'})\<close>, \<open>add({id: ''})\<close> and \<open>add({id: 'a'})\<close>.\<close>

definition plan_b :: inst where
  "plan_b =
     Inst ''Plan''
       (new_meta\<lparr>isNew := Some True, validator := Some [(''id'', True), (''name'', False)],
                 fetch_save := Some idle\<rparr>)
       Undefined None [(''id'', JStr ''b''), (''name'', JStr [])]"

definition plans_two :: inst where
  "plans_two =
     Inst ''Plan'' (new_meta\<lparr>isCollection := True\<rparr>) (JNum 2) (Some [plan_a, plan_b]) []"

definition plans_default :: inst where
  "plans_default =
     Inst ''Plan'' (new_meta\<lparr>isCollection := True\<rparr>) (JNum 1) (Some [plan_default]) []"

definition plans_huge_one :: inst where
  "plans_huge_one =
     Inst ''Plan'' (new_meta\<lparr>isCollection := True\<rparr>) (JNum (2 ^ 53)) (Some [plan_a]) []"

text \<open>\<open>new User({id: 'u1', firstName: 'Ada'})\<close>: the association \<open>sponsor\<close> is \<open>null\<close>.\<close>

definition user_1 :: inst where
  "user_1 =
     Inst ''User''
       (new_meta\<lparr>isNew := Some True,
                 validator := Some [(''id'', True), (''firstName'', False), (''sponsor'', False)],
                 fetch_save := Some idle\<rparr>)
       Undefined None
       [(''id'', JStr ''u1''), (''firstName'', JStr ''Ada''), (''sponsor'', Null)]"

definition account_1 :: inst where
  "account_1 =
     Inst ''Account''
       (new_meta\<lparr>isNew := Some True, validator := Some [(''id'', True)],
                 fetch_save := Some idle\<rparr>)
       Undefined None [(''id'', JStr ''a1'')]"

definition ticket_1 :: inst where
  "ticket_1 =
     Inst ''Ticket''
       (new_meta\<lparr>isNew := Some True, validator := Some [(''id'', True)],
                 fetch_save := Some idle\<rparr>)
       Undefined None [(''id'', JStr ''t1'')]"

definition base_1 :: inst where
  "base_1 =
     Inst ''Base'' (new_meta\<lparr>isNew := Some True, validator := Some [], fetch_save := Some idle\<rparr>)
       Undefined None [(''id'', JStr ''b1'')]"

text \<open>
  The request options of \<open>get()\<close> on a collection and of \<open>post()\<close>, and three hosts, whose
  servers differ: one answers 200 with a page of two rows and a total of 50, one answers
  500, one never answers before the timeout aborts the request. The examples count
  small collections only, on which the embedding computes the arithmetic itself; the
  three arithmetic functions of these hosts are never called.
\<close>

definition get_options :: fetch_options where
  "get_options =
     \<lparr>fo_method = ''GET'', fo_pathname = [],
      fo_searchParams = Some [(''limit'', ''20''), (''offset'', ''0'')], fo_extend = False\<rparr>"

definition post_options :: fetch_options where
  "post_options =
     \<lparr>fo_method = ''POST'', fo_pathname = [], fo_searchParams = None, fo_extend = False\<rparr>"

definition page :: jsval where
  "page =
     JObj [(''rows'', JArr [JObj [(''id'', JStr ''a'')], JObj [(''id'', JStr ''b'')]]),
           (''count'', JNum 50)]"

definition server_page :: env where
  "server_page =
     \<lparr>stringify = (\<lambda>v. JStr ''{}''), parse = (\<lambda>v. v),
      transport = (\<lambda>options requestInit. Responded \<lparr>ok = True, status = 200\<rparr> (Some page)),
      plus_one = (\<lambda>v. v), minus_one = (\<lambda>v. v), less_than = (\<lambda>n v. False)\<rparr>"

definition server_500 :: env where
  "server_500 =
     \<lparr>stringify = (\<lambda>v. JStr ''{}''), parse = (\<lambda>v. v),
      transport = (\<lambda>options requestInit. Responded \<lparr>ok = False, status = 500\<rparr> None),
      plus_one = (\<lambda>v. v), minus_one = (\<lambda>v. v), less_than = (\<lambda>n v. False)\<rparr>"

definition server_timeout :: env where
  "server_timeout =
     \<lparr>stringify = (\<lambda>v. JStr ''{}''), parse = (\<lambda>v. v),
      transport = (\<lambda>options requestInit. Rejected AbortError),
      plus_one = (\<lambda>v. v), minus_one = (\<lambda>v. v), less_than = (\<lambda>n v. False)\<rparr>"



section \<open>Basic facts\<close>

lemma sel_set_meta [simp]:
  "cname (set_meta f this) = cname this"
  "restinfront (set_meta f this) = f (restinfront this)"
  "count (set_meta f this) = count this"
  "collection (set_meta f this) = collection this"
  "props (set_meta f this) = props this"
  by (simp_all add: set_meta_def)

lemma sel_set_count [simp]:
  "cname (set_count c this) = cname this"
  "restinfront (set_count c this) = restinfront this"
  "count (set_count c this) = c"
  "collection (set_count c this) = collection this"
  "props (set_count c this) = props this"
  by (simp_all add: set_count_def)

lemma sel_setCollection [simp]:
  "cname (setCollection this xs) = cname this"
  "restinfront (setCollection this xs) = restinfront this"
  "count (setCollection this xs) = count this"
  "collection (setCollection this xs) = Some xs"
  "props (setCollection this xs) = props this"
  by (simp_all add: setCollection_def)

lemma sel_set_prop [simp]:
  "cname (set_prop this k v) = cname this"
  "restinfront (set_prop this k v) = restinfront this"
  "count (set_prop this k v) = count this"
  "collection (set_prop this k v) = collection this"
  by (simp_all add: set_prop_def)

lemma decr_incr:
  "- (2 ^ 53) \<le> c \<Longrightarrow> c < 2 ^ 53 \<Longrightarrow> decr en (incr en (JNum c)) = JNum c"
  by (simp add: incr_def decr_def)

lemma findIndex_ge: "- 1 \<le> findIndex cb xs"
  by (induction xs) (auto simp: Let_def)

lemma findIndex_none: "(findIndex cb xs = - 1) = (\<not> list_ex cb xs)"
proof (induction xs)
  case Nil
  show ?case by simp
next
  case (Cons x xs)
  have "- 1 \<le> findIndex cb xs" by (rule findIndex_ge)
  with Cons show ?case by (auto simp: Let_def)
qed

lemma findIndex_append_last:
  "\<not> list_ex cb xs \<Longrightarrow> cb x \<Longrightarrow> findIndex cb (xs @ [x]) = int (length xs)"
  by (induction xs) (auto simp: Let_def)

lemma splice1_last: "splice1 (length xs) (xs @ [x]) = ([x], xs)"
  by (simp add: splice1_def)

lemmas example_defs =
  plans_one_def plans_empty_def plans_huge_def plan_a_def plan_default_def new_meta_def idle_def
  models_def Plan_def User_def Account_def Base_def Ticket_def STRING_def BELONGSTO_def
  field_of_def user_1_def account_1_def ticket_1_def base_1_def get_options_def
  post_options_def page_def server_page_def server_500_def server_timeout_def no_options_def

section \<open>Collection algebra\<close>

lemma findIndex_first:
  "list_ex cb xs \<Longrightarrow>
     \<exists>pre x post. xs = pre @ x # post \<and> \<not> list_ex cb pre \<and> cb x \<and>
                  findIndex cb xs = int (length pre)"
proof (induction xs)
  case Nil
  then show ?case by simp
next
  case (Cons y ys)
  show ?case
  proof (cases "cb y")
    case True
    then have "y # ys = [] @ y # ys \<and> \<not> list_ex cb [] \<and> cb y \<and>
               findIndex cb (y # ys) = int (length ([] :: 'a list))"
      by simp
    then show ?thesis by blast
  next
    case False
    with Cons.prems have "list_ex cb ys" by simp
    from Cons.IH [OF this] obtain pre x post where
      p: "ys = pre @ x # post" "\<not> list_ex cb pre" "cb x" "findIndex cb ys = int (length pre)"
      by blast
    from p False have "y # ys = (y # pre) @ x # post \<and> \<not> list_ex cb (y # pre) \<and> cb x \<and>
                       findIndex cb (y # ys) = int (length (y # pre))"
      by (simp add: Let_def)
    then show ?thesis by blast
  qed
qed

text \<open>
  What \<open>remove\<close> does to the collection, for a reference that resolves to a predicate:
  without a match it returns \<open>null\<close> and changes nothing; with a match it deletes the
  first matching item and decrements \<open>count\<close>.
\<close>

lemma remove_no_match:
  assumes "items this = Inr xs" "getCollectionCallback (ct (cname this)) rf = Some cb"
    and "\<not> list_ex cb xs"
  shows "remove ct en this rf = Inr (Null, this)"
  using assms by (simp add: remove_def findIndex_none)

lemma remove_first_match:
  assumes xs: "items this = Inr xs"
    and cb: "getCollectionCallback (ct (cname this)) rf = Some cb"
    and ex: "list_ex cb xs"
  shows "\<exists>pre x post this1.
           xs = pre @ x # post \<and> \<not> list_ex cb pre \<and> cb x \<and>
           remove ct en this rf = Inr (JArr [JModel x], this1) \<and>
           items this1 = Inr (pre @ post) \<and>
           count this1 = decr en (count this)"
proof -
  from findIndex_first [OF ex] obtain pre x post where
    p: "xs = pre @ x # post" "\<not> list_ex cb pre" "cb x" "findIndex cb xs = int (length pre)"
    by blast
  define this1 where
    "this1 = setCollection (set_count (decr en (count this)) this) (pre @ post)"
  have sp: "splice1 (length pre) (pre @ x # post) = ([x], pre @ post)"
    by (simp add: splice1_def)
  have "remove ct en this rf = Inr (JArr [JModel x], this1)"
    using xs cb p sp by (simp add: remove_def this1_def)
  moreover have "items this1 = Inr (pre @ post)"
    using xs by (auto simp: this1_def items_def split: if_splits option.splits)
  moreover have "count this1 = decr en (count this)"
    by (simp add: this1_def)
  ultimately show ?thesis using p by blast
qed

text \<open>
  A reference that is neither a function, a string nor an object, such as a numeric key,
  resolves to no predicate, and \<open>findIndex(undefined)\<close> raises.
\<close>

lemma remove_numeric_ref_raises:
  "remove models server_page plans_one (RefValue (JNum 1)) = Inl TypeError"
  by (simp add: remove_def items_def example_defs)

text \<open>
  C1. \<open>remove\<close> of a reference that matches does delete the first match and decrement
  \<open>count\<close>, but it returns the array that \<open>splice\<close> returns, holding the removed item,
  not the item: on the collection of the one plan \<open>a\<close>, \<open>remove('a')\<close> leaves the empty
  collection with \<open>count\<close> 0 and returns \<open>[a]\<close>.
\<close>

theorem remove_returns_array:
  "remove models server_page plans_one (RefValue (JStr ''a''))
     = Inr (JArr [JModel plan_a], plans_empty)"
  by (simp add: remove_def items_def pk_key_def inst_get_def strict_eq_def splice1_def
      decr_def set_count_def setCollection_def example_defs)

text \<open>
  C6, as stated, fails twice. \<open>add({id: ''})\<close> on the empty collection builds an item
  whose key is the schema's default, since \<open>_buildRawItem\<close> takes a falsy key as absent;
  \<open>remove('')\<close> then matches nothing and returns \<open>null\<close>, and the length stays 1. And on
  a collection whose \<open>count\<close> is \<open>2^53\<close>, \<open>add\<close> leaves \<open>count\<close> at \<open>2^53\<close> (the sum is
  rounded) and \<open>remove\<close> takes it to \<open>2^53 - 1\<close>.
\<close>

theorem add_then_remove_fails:
  "exists models plans_empty (RefValue (JStr [])) = Inr False \<and>
   add models server_page plans_empty (JObj [(''id'', JStr [])]) no_options
     = Inr (plan_default, plans_default) \<and>
   remove models server_page plans_default (RefValue (JStr [])) = Inr (Null, plans_default) \<and>
   length_of plans_default = Inr 1 \<and>
   length_of plans_empty = Inr 0 \<and>
   exists models plans_huge (RefValue (JStr ''a'')) = Inr False \<and>
   add models server_page plans_huge (JObj [(''id'', JStr ''a'')]) no_options
     = Inr (plan_a, plans_huge_one) \<and>
   remove models server_page plans_huge_one (RefValue (JStr ''a''))
     = Inr (JArr [JModel plan_a], set_count (JNum (2 ^ 53 - 1)) plans_huge) \<and>
   count plans_huge = JNum (2 ^ 53)"
  by (simp add: exists_def add_def remove_def length_of_def items_def buildItem_def
      buildRawItem_def buildField_def buildValidator_def schema_field_def pk_key_def
      inst_get_def strict_eq_def splice1_def incr_def decr_def set_count_def setCollection_def
      plans_default_def plans_huge_one_def example_defs)

text \<open>
  C6, amended. On a collection whose \<open>count\<close> is an integer \<open>c\<close> with
  \<open>-2^53 \<le> c < 2^53\<close>, for an item and a reference such that the reference matched no
  item before and matches the instance that \<open>add(item)\<close> returns, \<open>add(item)\<close> followed by
  \<open>remove(ref)\<close> gives back the sequence (so its length) and \<open>count\<close> as they were, and
  \<open>exists(ref)\<close> is false afterwards. \<open>remove\<close> does return here: it does not raise.
\<close>

theorem add_then_remove:
  assumes nomatch: "exists ct this rf = Inr False"
    and added: "add ct en this item bo = Inr (instance, this1)"
    and cb: "getCollectionCallback (ct (cname this)) rf = Some cb"
    and matches: "cb instance"
    and cnt: "count this = JNum c" "- (2 ^ 53) \<le> c" "c < 2 ^ 53"
  shows "\<exists>removed this2.
           remove ct en this1 rf = Inr (removed, this2) \<and>
           length_of this2 = length_of this \<and>
           count this2 = count this \<and>
           items this2 = items this \<and>
           exists ct this2 rf = Inr False"
proof -
  from nomatch cb obtain xs where xs: "items this = Inr xs" and no: "\<not> list_ex cb xs"
    by (auto simp: exists_def split: sum.splits)
  from added xs have this1:
    "this1 = set_count (incr en (count this)) (setCollection this (xs @ [instance]))"
    by (auto simp: add_def split: sum.splits)
  from xs have coll: "isCollection (restinfront this)" "collection this = Some xs"
    by (auto simp: items_def split: if_splits option.splits)
  have items1: "items this1 = Inr (xs @ [instance])"
    using coll by (simp add: this1 items_def)
  have idx: "findIndex cb (xs @ [instance]) = int (length xs)"
    using no matches by (rule findIndex_append_last)
  define this2 where "this2 = setCollection (set_count (decr en (count this1)) this1) xs"
  have rem: "remove ct en this1 rf = Inr (JArr [JModel instance], this2)"
    using items1 cb idx by (simp add: remove_def this1 this2_def splice1_last)
  have items2: "items this2 = Inr xs"
    using coll by (simp add: this2_def this1 items_def)
  have "count this2 = decr en (incr en (JNum c))"
    using cnt(1) by (simp add: this2_def this1)
  with cnt have count2: "count this2 = count this"
    by (simp add: decr_incr)
  have ex2: "exists ct this2 rf = Inr False"
    using items2 cb no by (simp add: exists_def this2_def this1)
  show ?thesis
    using rem items2 xs count2 ex2 by (simp add: length_of_def)
qed

theorem add_then_remove_witness:
  "exists models plans_one (RefValue (JStr ''b'')) = Inr False \<and>
   add models server_page plans_one (JObj [(''id'', JStr ''b'')]) no_options
     = Inr (plan_b, plans_two) \<and>
   count plans_one = JNum 1 \<and>
   (\<exists>removed this2.
      remove models server_page plans_two (RefValue (JStr ''b'')) = Inr (removed, this2) \<and>
      length_of this2 = length_of plans_one \<and>
      count this2 = count plans_one \<and>
      items this2 = items plans_one \<and>
      exists models this2 (RefValue (JStr ''b'')) = Inr False)"
proof -
  have h1: "exists models plans_one (RefValue (JStr ''b'')) = Inr False"
    by (simp add: exists_def items_def strict_eq_def inst_get_def pk_key_def example_defs)
  have h2: "add models server_page plans_one (JObj [(''id'', JStr ''b'')]) no_options
              = Inr (plan_b, plans_two)"
    by (simp add: add_def items_def buildItem_def buildRawItem_def buildField_def
        buildValidator_def schema_field_def pk_key_def incr_def set_count_def setCollection_def
        plan_b_def plans_two_def example_defs)
  have h3: "getCollectionCallback (models (cname plans_one)) (RefValue (JStr ''b''))
              = Some (\<lambda>item. strict_eq (inst_get item (pk_key (models (cname plans_one))))
                               (JStr ''b''))"
    by simp
  have h4: "(\<lambda>item. strict_eq (inst_get item (pk_key (models (cname plans_one)))) (JStr ''b''))
              plan_b"
    by (simp add: strict_eq_def inst_get_def pk_key_def plan_b_def example_defs)
  have h5: "count plans_one = JNum 1" by (simp add: example_defs)
  have h6: "- (2 ^ 53) \<le> (1 :: int)" "(1 :: int) < 2 ^ 53" by simp_all
  from add_then_remove [OF h1 h2 h3 h4 h5 h6] h1 h2 h5 show ?thesis by simp
qed

section \<open>Validation of associations\<close>

text \<open>
  C5. A \<open>BelongsTo\<close> association whose value is \<open>null\<close>, validated with a nested list, is
  not skipped: the guard \<open>this[fieldname] !== null\<close> leaves \<open>associationErrors\<close>
  unassigned and the test \<open>associationErrors.length > 0\<close> after the \<open>switch\<close> raises a
  \<open>TypeError\<close>. On the user whose \<open>sponsor\<close> is \<open>null\<close>, \<open>_getValidationErrors\<close> of
  \<open>[['sponsor', ['code']], 'firstName']\<close> raises it, after marking \<open>sponsor\<close> checked, and
  the remaining entry \<open>firstName\<close> is not validated (it stays unchecked).
\<close>

theorem null_association_raises:
  "getValidationErrors models user_1
     [FieldPair ''sponsor'' (Some [FieldName ''code'']), FieldName ''firstName'']
   = (Inl TypeError,
      set_meta (\<lambda>m. m\<lparr>validator :=
                  Some [(''id'', True), (''firstName'', False), (''sponsor'', True)]\<rparr>) user_1)"
  by (simp add: getValidationErrors_def own_keys_def set_checked_def schema_field_def
      inst_get_def recordAssociation_def set_meta_def example_defs)

section \<open>Fetch\<close>

text \<open>
  C2. With \<open>collectionDataKey = 'rows'\<close> and \<open>collectionCountKey = 'count'\<close>, a successful
  \<open>GET\<close> on the empty collection whose body is the page
  \<open>{rows: [{id:'a'},{id:'b'}], count: 50}\<close> does not unwrap the page: \<open>fetch\<close> tests
  \<open>has(serverData, this.collectionCountKey)\<close> on the instance, where the key is
  \<open>undefined\<close>, builds an item from the whole body and merges it. The collection keeps
  length 0 and \<open>count\<close> 0, \<open>hasMore\<close> is false, and \<open>rows\<close> and \<open>count\<close> become stray
  properties of the collection instance.
\<close>

theorem page_not_unwrapped:
  "\<exists>this1.
     fetch models server_page plans_empty get_options []
       = (None, this1,
          [RequestEvent get_options
             \<lparr>ri_method = ''GET'', ri_mode = ''cors'', ri_content_type = ''application/json'',
              ri_bearer = None, ri_body = None\<rparr>]) \<and>
     succeeded (fetchStates this1) \<and>
     length_of this1 = Inr 0 \<and>
     count this1 = JNum 0 \<and>
     hasMore server_page this1 = Inr False \<and>
     props this1 =
       [(''rows'', JArr [JObj [(''id'', JStr ''a'')], JObj [(''id'', JStr ''b'')]]),
        (''count'', JNum 50)]"
  by (simp add: fetch_def fetch_reset_def set_op_def buildRequestInit_def fetch_try_def
      fetch_process_def response_body_def inst_get_def buildItem_def buildField_def
      schema_field_def buildValidator_def set_meta_def setCollection_def set_prop_def
      length_of_def hasMore_def js_less_def items_def example_defs)


section \<open>Serialization and request metadata\<close>

lemma serializeFields_error:
  "serializeFields ct this options vt newItem = Inl e \<Longrightarrow> e = TypeError"
  by (induction vt arbitrary: newItem) (auto simp: Let_def split: if_splits option.splits)

lemma beforeSerializeItem_error: "beforeSerializeItem ct this options = Inl e \<Longrightarrow> e = TypeError"
  by (auto simp: beforeSerializeItem_def split: option.splits dest: serializeFields_error)

lemma serializeEach_error: "serializeEach ct options xs = Inl e \<Longrightarrow> e = TypeError"
  by (induction xs arbitrary: e) (auto split: sum.splits dest: beforeSerializeItem_error)

lemma beforeSerialize_error: "beforeSerialize ct this options = Inl e \<Longrightarrow> e = TypeError"
  by (auto simp: beforeSerialize_def items_def split: if_splits sum.splits option.splits
      dest: beforeSerializeItem_error serializeEach_error)

text \<open>
  C10. \<open>toJSON()\<close> never returns: for every instance, item or collection, it raises a
  \<open>TypeError\<close>, since \<open>JSON\<close> has no method \<open>stringyfy\<close> (and a failure of
  \<open>beforeSerialize\<close>, evaluated first, is a \<open>TypeError\<close> too).
\<close>

theorem toJSON_raises: "toJSON ct en this = Inl TypeError"
  by (auto simp: toJSON_def JSON_call_def JSON_property_def split: sum.splits
      dest: beforeSerialize_error)

text \<open>
  For \<open>POST\<close>, \<open>PUT\<close> and \<open>PATCH\<close>, \<open>_buildRequestInit\<close> never returns request metadata:
  whatever the instance and the token, it raises.
\<close>

lemma buildRequestInit_mutating_raises:
  assumes "meth = ''POST'' \<or> meth = ''PUT'' \<or> meth = ''PATCH''"
  shows "\<exists>e. buildRequestInit ct en this meth = Inl e"
  using assms
  by (auto simp: buildRequestInit_def JSON_call_def JSON_property_def
      split: option.splits sum.splits)

text \<open>
  C3. For \<open>POST\<close>, \<open>PUT\<close> and \<open>PATCH\<close> the request metadata should carry the JSON of
  \<open>beforeSerialize({removeInvalid: true})\<close>. The code evaluates that value (for the user
  \<open>user_1\<close> it is \<open>{id: 'u1'}\<close>, the one field that is checked and valid) and then calls
  \<open>JSON.stringyfy\<close>, which does not exist: \<open>_buildRequestInit\<close> raises a \<open>TypeError\<close> and
  no body is built.
\<close>

theorem request_body_not_built:
  "request_payload models user_1 = Inr (JObj [(''id'', JStr ''u1'')]) \<and>
   buildRequestInit models server_page user_1 ''POST'' = Inl TypeError \<and>
   buildRequestInit models server_page user_1 ''PUT'' = Inl TypeError \<and>
   buildRequestInit models server_page user_1 ''PATCH'' = Inl TypeError"
  by (simp add: buildRequestInit_def request_payload_def beforeSerialize_def
      beforeSerializeItem_def schema_field_def inst_get_def validator_isValid_def JSON_call_def
      JSON_property_def example_defs)

lemma update_fresh: "k \<notin> fst ` set acc \<Longrightarrow> AList.update k v acc = acc @ [(k, v)]"
  by (induction acc) auto

lemma serializeFields_removeInvalid:
  assumes "distinct (map fst vt)" "fst ` set vt \<inter> fst ` set acc = {}"
    and "list_all (\<lambda>entry. schema_field (ct (cname this)) (fst entry) \<noteq> None) vt"
  shows "serializeFields ct this \<lparr>removeInvalid = Some True\<rparr> vt acc
         = Inr (acc @ map (serialized ct this \<lparr>removeInvalid = Some True\<rparr>)
                        (filter (sent ct this) vt))"
  using assms
proof (induction vt arbitrary: acc)
  case Nil
  show ?case by simp
next
  case (Cons entry vt)
  obtain k c where entry: "entry = (k, c)" by (cases entry)
  from Cons.prems entry obtain fc where fc: "schema_field (ct (cname this)) k = Some fc" by auto
  from Cons.prems entry have fresh: "k \<notin> fst ` set acc" by auto
  show ?case
  proof (cases "c \<and> validator_isValid fc (inst_get this k) this")
    case True
    let ?acc = "AList.update k
                  (t_beforeSerialize (ftype fc) (inst_get this k) \<lparr>removeInvalid = Some True\<rparr>) acc"
    have disj: "fst ` set vt \<inter> fst ` set ?acc = {}"
      using Cons.prems entry fresh by (auto simp: update_fresh)
    have "serializeFields ct this \<lparr>removeInvalid = Some True\<rparr> vt ?acc
         = Inr (?acc @ map (serialized ct this \<lparr>removeInvalid = Some True\<rparr>)
                         (filter (sent ct this) vt))"
      using Cons.prems disj by (intro Cons.IH) auto
    moreover have "sent ct this (k, c)" using True fc by (simp add: sent_def)
    moreover have "serialized ct this \<lparr>removeInvalid = Some True\<rparr> (k, c)
        = (k, t_beforeSerialize (ftype fc) (inst_get this k) \<lparr>removeInvalid = Some True\<rparr>)"
      using fc by (simp add: serialized_def)
    ultimately show ?thesis
      using True fc fresh by (simp add: entry update_fresh Let_def)
  next
    case False
    have "serializeFields ct this \<lparr>removeInvalid = Some True\<rparr> vt acc
         = Inr (acc @ map (serialized ct this \<lparr>removeInvalid = Some True\<rparr>)
                        (filter (sent ct this) vt))"
      using Cons.prems by (intro Cons.IH) auto
    moreover have "\<not> sent ct this (k, c)" using False fc by (simp add: sent_def)
    ultimately show ?thesis
      using False fc by (auto simp: entry Let_def)
  qed
qed

text \<open>
  What the request payload is for an item-mode instance whose validator table has the
  entries of its schema: the object of the fields that are checked and currently valid,
  in the order of the table, each transformed by \<open>beforeSerialize\<close> of its field type.
\<close>

lemma request_payload_checked_valid:
  assumes "\<not> isCollection (restinfront this)"
    and "validator (restinfront this) = Some vt"
    and "distinct (map fst vt)"
    and "list_all (\<lambda>entry. schema_field (ct (cname this)) (fst entry) \<noteq> None) vt"
  shows "request_payload ct this
         = Inr (JObj (map (serialized ct this \<lparr>removeInvalid = Some True\<rparr>)
                        (filter (sent ct this) vt)))"
  using assms serializeFields_removeInvalid [of vt "[]" ct this]
  by (simp add: request_payload_def beforeSerialize_def beforeSerializeItem_def)

section \<open>The fetch state machine\<close>

lemmas fetch_defs =
  fetch_def fetch_reset_def set_op_def buildRequestInit_def request_payload_def fetch_try_def
  fetch_catch_def
  fetch_process_def response_body_def set_meta_def op_state_def failure_def

lemma set_op_Some: "op_state options this = Some s \<Longrightarrow> \<exists>this1. set_op options f this = Inr this1"
  by (auto simp: set_op_def op_state_def split: if_splits option.splits)

lemma fetch_reset_sel [simp]:
  "cname (fetch_reset options this) = cname this"
  "props (fetch_reset options this) = props this"
  "collection (fetch_reset options this) = collection this"
  "count (fetch_reset options this) = count this"
  "isNew (restinfront (fetch_reset options this)) = isNew (restinfront this)"
  "fetch_response (restinfront (fetch_reset options this)) = None"
  "progressing (fetchStates (fetch_reset options this))"
  "\<not> succeeded (fetchStates (fetch_reset options this))"
  "\<not> failed (fetchStates (fetch_reset options this))"
  "succeededOnce (fetchStates (fetch_reset options this)) = succeededOnce (fetchStates this)"
  "op_state options' (fetch_reset options this) = op_state options' this"
  by (simp_all add: fetch_reset_def op_state_def)

lemma set_op_facts:
  assumes "set_op options f this = Inr this1"
  shows "cname this1 = cname this \<and> props this1 = props this \<and> collection this1 = collection this \<and>
    count this1 = count this \<and>
    isNew (restinfront this1) = isNew (restinfront this) \<and>
    fetch_response (restinfront this1) = fetch_response (restinfront this) \<and>
    progressing (fetchStates this1) = progressing (fetchStates this) \<and>
    succeeded (fetchStates this1) = succeeded (fetchStates this) \<and>
    succeededOnce (fetchStates this1) = succeededOnce (fetchStates this) \<and>
    failed (fetchStates this1) = failed (fetchStates this) \<and>
    (\<exists>s. op_state options this = Some s \<and> op_state options this1 = Some (f s))"
  using assms by (auto simp: set_op_def op_state_def split: if_splits option.splits)

lemma fetch_catch_facts:
  assumes "fetch_catch ct options error this log = (r, this1, log1)"
  shows "cname this1 = cname this \<and> props this1 = props this \<and> collection this1 = collection this \<and>
    count this1 = count this \<and>
    isNew (restinfront this1) = isNew (restinfront this) \<and>
    progressing (fetchStates this1) = progressing (fetchStates this) \<and>
    succeeded (fetchStates this1) = succeeded (fetchStates this) \<and>
    succeededOnce (fetchStates this1) = succeededOnce (fetchStates this) \<and>
    log1 = log @ [FetchErrorEvent error (fetch_response (restinfront this))] \<and>
    (onFetchError (ct (cname this)) error (fetch_response (restinfront this)) = None \<longrightarrow>
       failed (fetchStates this1) \<and>
       (\<forall>s. op_state options this = Some s \<longrightarrow>
          r = None \<and> op_state options this1 = Some (s\<lparr>op_failed := True\<rparr>)))"
  using assms
  by (auto simp: fetch_catch_def Let_def set_op_def op_state_def
      split: if_splits option.splits sum.splits)

lemma fetch_try_failure:
  assumes "fetch_try ct en options requestInit this log = (r, this1, log1)"
    and "failure (transport en options requestInit)"
    and "fetch_response (restinfront this) = None"
  shows "cname this1 = cname this \<and> props this1 = props this \<and> collection this1 = collection this \<and>
    count this1 = count this \<and>
    isNew (restinfront this1) = isNew (restinfront this) \<and>
    progressing (fetchStates this1) = progressing (fetchStates this) \<and>
    succeeded (fetchStates this1) = succeeded (fetchStates this) \<and>
    succeededOnce (fetchStates this1) = succeededOnce (fetchStates this) \<and>
    (onFetchError (ct (cname this)) (reported_error (transport en options requestInit))
       (reported_response (transport en options requestInit)) = None \<longrightarrow>
       failed (fetchStates this1) \<and>
       (\<forall>s. op_state options this = Some s \<longrightarrow>
          r = None \<and> op_state options this1 = Some (s\<lparr>op_failed := True\<rparr>)))"
proof (cases "transport en options requestInit")
  case (Rejected error)
  with assms(1) have
    "fetch_catch ct options error this (log @ [RequestEvent options requestInit]) = (r, this1, log1)"
    by (simp add: fetch_try_def)
  from fetch_catch_facts [OF this] assms(3) Rejected show ?thesis
    by (simp add: reported_error_def reported_response_def)
next
  case (Responded resp body)
  with assms(2) have bad: "\<not> ok resp" by (simp add: failure_def)
  let ?stored = "set_meta (\<lambda>m. m\<lparr>fetch_response := Some resp\<rparr>) this"
  from assms(1) Responded bad have
    "fetch_catch ct options (RestinfrontError (ErrorStatus (status resp))) ?stored
       (log @ [RequestEvent options requestInit]) = (r, this1, log1)"
    by (simp add: fetch_try_def)
  moreover have "op_state options ?stored = op_state options this"
    by (simp add: op_state_def)
  ultimately show ?thesis
    using fetch_catch_facts
            [of ct options "RestinfrontError (ErrorStatus (status resp))" ?stored
               "log @ [RequestEvent options requestInit]" r this1 log1]
          Responded
    by (simp add: reported_error_def reported_response_def)
qed

lemma fetch_try_flags:
  assumes "fetch_try ct en options requestInit this log = (r, this1, log1)"
  shows "cname this1 = cname this \<and> props this1 = props this \<and> collection this1 = collection this \<and>
    count this1 = count this \<and>
    isNew (restinfront this1) = isNew (restinfront this) \<and>
    progressing (fetchStates this1) = progressing (fetchStates this) \<and>
    (succeededOnce (fetchStates this) \<longrightarrow> succeededOnce (fetchStates this1)) \<and>
    (\<exists>rest. log1 = log @ RequestEvent options requestInit # rest)"
  using assms
  by (auto simp: fetch_try_def Let_def split: outcome.splits if_splits sum.splits
      dest!: fetch_catch_facts set_op_facts)

text \<open>
  On an instance as the constructor builds it, a \<open>fetch\<close> with a method other than \<open>GET\<close>
  raises a \<open>TypeError\<close> when it resets the flags of \<open>states.save\<close>, before the request
  metadata is built: nothing is sent and nothing is reported.
\<close>

lemma post_raises:
  "fst (fetch models server_page user_1 post_options []) = Some TypeError \<and>
   snd (snd (fetch models server_page user_1 post_options [])) = []"
  by (simp add: fetch_defs example_defs)

lemma fetch_process_idle:
  "\<not> succeeded (fetchStates this) \<Longrightarrow> fetch_process ct en this body = (None, this)"
  by (simp add: fetch_process_def)

text \<open>
  C7, as stated, fails on a model whose \<open>onFetchError\<close> raises, as the callback of the
  README does: the \<open>catch\<close> block calls the callback before it writes the flags, so on a
  response 500 \<open>fetch\<close> is left by the callback's error, \<open>failed\<close> is still false, globally
  and for \<open>get\<close>, and \<open>get.progressing\<close> is still true.
\<close>

theorem raising_callback_skips_failed:
  "fst (fetch models server_500 ticket_1 get_options []) = Some ReferenceError \<and>
   snd (snd (fetch models server_500 ticket_1 get_options []))
     = [RequestEvent get_options
          \<lparr>ri_method = ''GET'', ri_mode = ''cors'', ri_content_type = ''application/json'',
           ri_bearer = None, ri_body = None\<rparr>,
        FetchErrorEvent (RestinfrontError (ErrorStatus 500)) (Some \<lparr>ok = False, status = 500\<rparr>)] \<and>
   \<not> failed (fetchStates (fst (snd (fetch models server_500 ticket_1 get_options [])))) \<and>
   \<not> op_failed (states_get (fetchStates (fst (snd (fetch models server_500 ticket_1 get_options []))))) \<and>
   op_progressing (states_get (fetchStates (fst (snd (fetch models server_500 ticket_1 get_options [])))))"
  by (simp add: fetch_defs example_defs)

text \<open>
  C7, amended. A \<open>fetch\<close> whose request was issued and failed (the promise was rejected,
  as on a timeout, or the response was not 2xx) leaves the properties of the instance,
  its \<open>collection\<close> and its \<open>count\<close> as they were, leaves \<open>isNew\<close> as it was (so never
  turns it from true to false) and leaves \<open>succeededOnce\<close> as it was; and when the call
  of \<open>onFetchError\<close> with the error and the response returns, \<open>fetch\<close> returns and
  \<open>failed\<close> is set globally and in the sub-state of the operation class.
\<close>

theorem failed_fetch:
  assumes run: "fetch ct en this options log = (r, this', log')"
    and issued: "log' = log @ RequestEvent options requestInit # rest"
    and fails: "failure (transport en options requestInit)"
  shows "props this' = props this \<and> collection this' = collection this \<and>
         count this' = count this \<and>
         isNew (restinfront this') = isNew (restinfront this) \<and>
         succeededOnce (fetchStates this') = succeededOnce (fetchStates this) \<and>
         (onFetchError (ct (cname this)) (reported_error (transport en options requestInit))
            (reported_response (transport en options requestInit)) = None \<longrightarrow>
            r = None \<and> failed (fetchStates this') \<and>
            (\<exists>s. op_state options this' = Some s \<and> op_failed s))"
proof -
  from run issued have ep: "endpoint (ct (cname this)) \<noteq> []"
    by (auto simp: fetch_def)
  from run issued ep obtain this1 where
    s1: "set_op options (\<lambda>s. s\<lparr>op_progressing := True, op_failed := False, op_succeeded := False\<rparr>)
           (fetch_reset options this) = Inr this1"
    by (auto simp: fetch_def split: sum.splits)
  from run issued ep s1 obtain ri where ri: "buildRequestInit ct en this1 (fo_method options) = Inr ri"
    by (auto simp: fetch_def split: sum.splits)
  obtain r2 this2 log2 where t: "fetch_try ct en options ri this1 log = (r2, this2, log2)"
    by (cases "fetch_try ct en options ri this1 log") auto
  from fetch_try_flags [OF t] obtain rest2 where log2: "log2 = log @ RequestEvent options ri # rest2"
    by auto
  have same_log: "log' = log2"
    using run ep s1 ri t
    by (auto simp: fetch_def split: option.splits prod.splits sum.splits)
  with issued log2 have same_ri: "ri = requestInit" by simp
  with fails have fails': "failure (transport en options ri)" by simp
  note f1 = set_op_facts [OF s1]
  then obtain s where s: "op_state options this1 = Some s" by auto
  from f1 have resp1: "fetch_response (restinfront this1) = None" by simp
  note f2 = fetch_try_failure [OF t fails' resp1]
  have ns: "\<not> succeeded (fetchStates this2)"
    using f1 f2 by simp
  have p: "fetch_process ct en this2 (response_body (transport en options ri)) = (None, this2)"
    using ns by (rule fetch_process_idle)
  show ?thesis
  proof (cases r2)
    case (Some e)
    with run ep s1 ri t have "this' = this2" by (simp add: fetch_def)
    moreover from Some f1 f2 s same_ri have
      "onFetchError (ct (cname this)) (reported_error (transport en options requestInit))
         (reported_response (transport en options requestInit)) \<noteq> None"
      by auto
    ultimately show ?thesis using f1 f2 by auto
  next
    case None
    show ?thesis
    proof (cases "set_op options (\<lambda>s. s\<lparr>op_progressing := False\<rparr>) this2")
      case (Inl e)
      with run ep s1 ri t None p have "this' = this2" by (simp add: fetch_def)
      moreover have
        "onFetchError (ct (cname this)) (reported_error (transport en options requestInit))
           (reported_response (transport en options requestInit)) \<noteq> None"
      proof
        assume returns:
          "onFetchError (ct (cname this)) (reported_error (transport en options requestInit))
             (reported_response (transport en options requestInit)) = None"
        with f1 f2 s same_ri have "op_state options this2 = Some (s\<lparr>op_failed := True\<rparr>)"
          by auto
        from set_op_Some [OF this] Inl show False by (metis sum.distinct(1))
      qed
      ultimately show ?thesis using f1 f2 by auto
    next
      case (Inr this4)
      with run ep s1 ri t None p have res: "r = None" "this' = this4" by (simp_all add: fetch_def)
      note f4 = set_op_facts [OF Inr]
      show ?thesis
        using f1 f2 f4 s res same_ri by auto
    qed
  qed
qed

theorem failed_fetch_witness:
  "snd (snd (fetch models server_timeout user_1 get_options []))
     = [] @ RequestEvent get_options
               \<lparr>ri_method = ''GET'', ri_mode = ''cors'', ri_content_type = ''application/json'',
                ri_bearer = None, ri_body = None\<rparr> # [FetchErrorEvent AbortError None] \<and>
   failure (transport server_timeout get_options
              \<lparr>ri_method = ''GET'', ri_mode = ''cors'', ri_content_type = ''application/json'',
               ri_bearer = None, ri_body = None\<rparr>) \<and>
   onFetchError (models (cname user_1))
     (reported_error (transport server_timeout get_options
        \<lparr>ri_method = ''GET'', ri_mode = ''cors'', ri_content_type = ''application/json'',
         ri_bearer = None, ri_body = None\<rparr>))
     (reported_response (transport server_timeout get_options
        \<lparr>ri_method = ''GET'', ri_mode = ''cors'', ri_content_type = ''application/json'',
         ri_bearer = None, ri_body = None\<rparr>)) = None \<and>
   fst (fetch models server_timeout user_1 get_options []) = None \<and>
   props (fst (snd (fetch models server_timeout user_1 get_options []))) = props user_1 \<and>
   failed (fetchStates (fst (snd (fetch models server_timeout user_1 get_options [])))) \<and>
   (\<exists>s. op_state get_options (fst (snd (fetch models server_timeout user_1 get_options []))) = Some s
        \<and> op_failed s) \<and>
   isNew (restinfront (fst (snd (fetch models server_timeout user_1 get_options [])))) = Some True \<and>
   \<not> succeededOnce (fetchStates (fst (snd (fetch models server_timeout user_1 get_options []))))"
proof -
  let ?run = "fetch models server_timeout user_1 get_options []"
  let ?ri = "\<lparr>ri_method = ''GET'', ri_mode = ''cors'', ri_content_type = ''application/json'',
               ri_bearer = None, ri_body = None\<rparr>"
  have run: "?run = (fst ?run, fst (snd ?run), snd (snd ?run))" by simp
  have issued: "snd (snd ?run) = [] @ RequestEvent get_options ?ri # [FetchErrorEvent AbortError None]"
    by (simp add: fetch_defs example_defs)
  have fails: "failure (transport server_timeout get_options ?ri)"
    by (simp add: failure_def example_defs)
  have returns: "onFetchError (models (cname user_1))
      (reported_error (transport server_timeout get_options ?ri))
      (reported_response (transport server_timeout get_options ?ri)) = None"
    by (simp add: example_defs)
  have new: "isNew (restinfront user_1) = Some True" "\<not> succeededOnce (fetchStates user_1)"
    by (simp_all add: example_defs)
  from failed_fetch [OF run issued fails] issued fails returns new show ?thesis by simp
qed

text \<open>
  C4, as stated, fails on the account whose token provider resolves to \<open>null\<close>: \<open>fetch\<close>
  raises the error itself, the event log stays empty (\<open>onFetchError\<close> is not called), the
  \<open>failed\<close> flag stays false and the \<open>get\<close> sub-state stays \<open>progressing\<close>.
\<close>

theorem falsy_token_not_surfaced:
  "fst (fetch models server_page account_1 get_options [])
     = Some (RestinfrontError (InvalidToken Null)) \<and>
   snd (snd (fetch models server_page account_1 get_options [])) = [] \<and>
   \<not> failed (fetchStates (fst (snd (fetch models server_page account_1 get_options [])))) \<and>
   op_progressing (states_get (fetchStates (fst (snd (fetch models server_page account_1 get_options [])))))"
  by (simp add: fetch_defs example_defs)

text \<open>
  C4, amended. On a model with an endpoint and with authentication configured, when
  \<open>fetch\<close> reaches the token provider (the sub-state of the operation class exists) and
  the provider yields a falsy token, \<open>fetch\<close> itself raises the error (its promise is
  rejected) before any request is issued: the event log is unchanged, so \<open>onFetchError\<close>
  is not called, the \<open>failed\<close> flags stay false and the \<open>progressing\<close> flags stay true;
  the failure transition of the other fetch errors is not taken.
\<close>

theorem falsy_token_thrown:
  assumes ep: "endpoint (ct (cname this)) \<noteq> []"
    and auth: "authentication (ct (cname this)) = Some token"
    and falsy: "\<not> truthy token"
    and slot: "op_state options this = Some s"
  shows "\<exists>this'.
           fetch ct en this options log = (Some (RestinfrontError (InvalidToken token)), this', log) \<and>
           \<not> failed (fetchStates this') \<and>
           op_state options this'
             = Some (s\<lparr>op_progressing := True, op_failed := False, op_succeeded := False\<rparr>) \<and>
           progressing (fetchStates this') \<and>
           props this' = props this"
proof -
  have "op_state options (fetch_reset options this) = Some s"
    using slot by simp
  from set_op_Some [OF this] obtain this1 where
    s1: "set_op options (\<lambda>s. s\<lparr>op_progressing := True, op_failed := False, op_succeeded := False\<rparr>)
           (fetch_reset options this) = Inr this1"
    by blast
  note f1 = set_op_facts [OF s1]
  have b: "buildRequestInit ct en this1 (fo_method options) = Inl (RestinfrontError (InvalidToken token))"
    using auth falsy f1 by (simp add: buildRequestInit_def)
  have "fetch ct en this options log = (Some (RestinfrontError (InvalidToken token)), this1, log)"
    using ep s1 b by (simp add: fetch_def)
  then show ?thesis
    using f1 slot by auto
qed

theorem falsy_token_thrown_witness:
  "endpoint (models (cname account_1)) \<noteq> [] \<and>
   authentication (models (cname account_1)) = Some Null \<and>
   \<not> truthy Null \<and>
   op_state get_options account_1 = Some idle \<and>
   (\<exists>this'.
      fetch models server_page account_1 get_options []
        = (Some (RestinfrontError (InvalidToken Null)), this', []) \<and>
      \<not> failed (fetchStates this') \<and>
      op_state get_options this'
        = Some (idle\<lparr>op_progressing := True, op_failed := False, op_succeeded := False\<rparr>) \<and>
      progressing (fetchStates this') \<and>
      props this' = props account_1)"
proof -
  have h1: "endpoint (models (cname account_1)) \<noteq> []" by (simp add: example_defs)
  have h2: "authentication (models (cname account_1)) = Some Null" by (simp add: example_defs)
  have h3: "\<not> truthy Null" by simp
  have h4: "op_state get_options account_1 = Some idle" by (simp add: op_state_def example_defs)
  from falsy_token_thrown
         [where ct = models and this = account_1 and token = Null and options = get_options
            and s = idle and en = server_page and log = "[]", OF h1 h2 h3 h4]
       h1 h2 h3 h4
  show ?thesis by simp
qed

lemma add_meta:
  "add ct en this item bo = Inr (instance, this1) \<Longrightarrow> fetchStates this1 = fetchStates this"
  by (auto simp: add_def split: sum.splits)

lemma remove_meta:
  "remove ct en this rf = Inr (v, this1) \<Longrightarrow> fetchStates this1 = fetchStates this"
  by (auto simp: remove_def Let_def split: sum.splits option.splits if_splits prod.splits)

lemma toggle_meta:
  "toggle ct en this item callback = Inr (v, this1) \<Longrightarrow> fetchStates this1 = fetchStates this"
  by (auto simp: toggle_def Let_def split: sum.splits bool.splits prod.splits
      dest: add_meta remove_meta)

lemma clear_meta: "clear this = Inr this1 \<Longrightarrow> fetchStates this1 = fetchStates this"
  by (auto simp: clear_def split: sum.splits)

lemma addAll_meta: "addAll ct en this xs = (r, this1) \<Longrightarrow> fetchStates this1 = fetchStates this"
proof (induction xs arbitrary: this)
  case Nil
  then show ?case by simp
next
  case (Cons x xs)
  then show ?case
    by (auto split: sum.splits prod.splits dest: add_meta)
qed

lemma mutateFields_meta:
  "mutateFields ct en this ps = (r, this1) \<Longrightarrow> fetchStates this1 = fetchStates this"
proof (induction ps arbitrary: this)
  case Nil
  then show ?case by simp
next
  case (Cons kv ps)
  obtain key v where kv: "kv = (key, v)" by (cases kv)
  from Cons.prems Cons.IH show ?case
    unfolding kv
    by (auto split: jsval.splits prod.splits option.splits)
qed

lemma mutateData_meta:
  "mutateData ct en this newData = (r, this1) \<Longrightarrow> fetchStates this1 = fetchStates this"
  by (cases newData)
     (auto simp: Let_def split: if_splits option.splits bool.splits prod.splits
       dest: addAll_meta mutateFields_meta)

lemma fetch_process_meta:
  "fetch_process ct en this body = (r, this1) \<Longrightarrow> fetchStates this1 = fetchStates this"
  by (auto simp: fetch_process_def Let_def split: if_splits option.splits sum.splits
      dest: mutateData_meta)


lemma set_checked_meta:
  "set_checked this fieldname = Inr this1 \<Longrightarrow> fetchStates this1 = fetchStates this"
  by (auto simp: set_checked_def split: option.splits)

lemma validateLeaf_meta:
  "validateLeaf ct fieldname this errors = (r, this1) \<Longrightarrow> fetchStates this1 = fetchStates this"
  by (auto simp: validateLeaf_def split: if_splits sum.splits bool.splits dest: set_checked_meta)

lemma validateItem_meta:
  "validateItem ct fielditem this errors = (r, this1) \<Longrightarrow> fetchStates this1 = fetchStates this"
proof (cases fielditem)
  case (FieldName fieldname)
  assume "validateItem ct fielditem this errors = (r, this1)"
  with FieldName show ?thesis by (auto dest: validateLeaf_meta)
next
  case (FieldPair fieldname fl)
  assume run: "validateItem ct fielditem this errors = (r, this1)"
  show ?thesis
  proof (cases fl)
    case None
    with run FieldPair show ?thesis
      by (auto split: if_splits sum.splits prod.splits dest!: set_checked_meta validateLeaf_meta)
  next
    case (Some fieldlist)
    with run FieldPair show ?thesis
      by (auto split: if_splits sum.splits prod.splits option.splits jsval.splits
          dest: set_checked_meta)
  qed
next
  case FieldOther
  assume "validateItem ct fielditem this errors = (r, this1)"
  with FieldOther show ?thesis by simp
qed

lemma validateFields_meta:
  "validateFields ct fieldlist this errors = (r, this1) \<Longrightarrow> fetchStates this1 = fetchStates this"
proof (induction fieldlist arbitrary: this errors)
  case Nil
  then show ?case by simp
next
  case (Cons fielditem rest)
  obtain r0 this0 where i: "validateItem ct fielditem this errors = (r0, this0)"
    by (cases "validateItem ct fielditem this errors") auto
  from validateItem_meta [OF i] have m0: "fetchStates this0 = fetchStates this" .
  show ?case
  proof (cases r0)
    case (Inl e)
    with Cons.prems i m0 show ?thesis by simp
  next
    case (Inr errors1)
    with Cons.prems i have "validateFields ct rest this0 errors1 = (r, this1)" by simp
    from Cons.IH [OF this] m0 show ?thesis by simp
  qed
qed

lemma valid_meta:
  "valid ct this fieldlist log = (b, this1, log1) \<Longrightarrow> fetchStates this1 = fetchStates this"
  by (auto simp: valid_def getValidationErrors_def split: if_splits option.splits sum.splits prod.splits
      dest!: validateFields_meta)

lemma fetch_flags:
  assumes run: "fetch ct en this options log = (r, this1, log1)"
  shows "(succeededOnce (fetchStates this) \<longrightarrow> succeededOnce (fetchStates this1)) \<and>
         (endpoint (ct (cname this)) \<noteq> [] \<or> progressing (fetchStates this)
            \<longrightarrow> progressing (fetchStates this1))"
proof (cases "endpoint (ct (cname this)) = []")
  case True
  with run show ?thesis by (simp add: fetch_def)
next
  case ep: False
  show ?thesis
  proof (cases "set_op options (\<lambda>s. s\<lparr>op_progressing := True, op_failed := False, op_succeeded := False\<rparr>)
           (fetch_reset options this)")
    case (Inl e)
    with run ep show ?thesis by (auto simp: fetch_def)
  next
    case (Inr this2)
    note f2 = set_op_facts [OF Inr]
    show ?thesis
    proof (cases "buildRequestInit ct en this2 (fo_method options)")
      case (Inl e)
      with run ep Inr f2 show ?thesis by (auto simp: fetch_def)
    next
      case ri: (Inr requestInit)
      obtain r3 this3 log3 where t: "fetch_try ct en options requestInit this2 log = (r3, this3, log3)"
        by (cases "fetch_try ct en options requestInit this2 log") auto
      note f3 = fetch_try_flags [OF t]
      show ?thesis
      proof (cases r3)
        case (Some e)
        with run ep Inr ri t f2 f3 show ?thesis by (auto simp: fetch_def)
      next
        case None
        obtain r4 this4 where
          p: "fetch_process ct en this3 (response_body (transport en options requestInit)) = (r4, this4)"
          by (cases "fetch_process ct en this3 (response_body (transport en options requestInit))") auto
        note f4 = fetch_process_meta [OF p]
        show ?thesis
        proof (cases r4)
          case (Some e)
          with run ep Inr ri t None p f2 f3 f4 show ?thesis by (auto simp: fetch_def)
        next
          case n4: None
          show ?thesis
          proof (cases "set_op options (\<lambda>s. s\<lparr>op_progressing := False\<rparr>) this4")
            case (Inl e)
            with run ep Inr ri t None p n4 f2 f3 f4 show ?thesis by (auto simp: fetch_def)
          next
            case i5: (Inr this5)
            note f5 = set_op_facts [OF i5]
            from run ep Inr ri t None p n4 i5 have "this1 = this5" by (simp add: fetch_def)
            with f2 f3 f4 f5 show ?thesis by auto
          qed
        qed
      qed
    qed
  qed
qed

lemma step_flags:
  assumes "step ct this this1"
  shows "(succeededOnce (fetchStates this) \<longrightarrow> succeededOnce (fetchStates this1)) \<and>
         (progressing (fetchStates this) \<longrightarrow> progressing (fetchStates this1))"
  using assms
proof cases
  case (step_fetch en options log r log1)
  from fetch_flags [OF this] show ?thesis by auto
next
  case (step_valid fieldlist log b log1)
  from valid_meta [OF this] show ?thesis by simp
next
  case (step_add en item bo added)
  from add_meta [OF this] show ?thesis by simp
next
  case (step_remove en rf v)
  from remove_meta [OF this] show ?thesis by simp
next
  case (step_toggle en item callback v)
  from toggle_meta [OF this] show ?thesis by simp
next
  case step_clear
  from clear_meta [OF this] show ?thesis by simp
next
  case (step_mutateData en newData e)
  from mutateData_meta [OF this] show ?thesis by simp
qed

lemma steps_flags:
  assumes "(step ct)\<^sup>*\<^sup>* this this1"
  shows "(succeededOnce (fetchStates this) \<longrightarrow> succeededOnce (fetchStates this1)) \<and>
         (progressing (fetchStates this) \<longrightarrow> progressing (fetchStates this1))"
  using assms
proof (induction rule: rtranclp_induct)
  case base
  show ?case by simp
next
  case (step y z)
  from step_flags [OF step.hyps(2)] step.IH show ?case by blast
qed

text \<open>
  C8. \<open>succeededOnce\<close> is monotonic: once it is true, it is true after every sequence of
  operations on the instance (\<open>fetch\<close>, \<open>valid\<close>, \<open>add\<close>, \<open>remove\<close>, \<open>toggle\<close>, \<open>clear\<close>,
  \<open>_mutateData\<close>), whether they return or raise.
\<close>

theorem succeededOnce_monotonic:
  assumes "succeededOnce (fetchStates this)" and "(step ct)\<^sup>*\<^sup>* this this1"
  shows "succeededOnce (fetchStates this1)"
  using steps_flags [OF assms(2)] assms(1) by blast

theorem succeededOnce_monotonic_witness:
  "succeededOnce (fetchStates (fst (snd (fetch models server_page plans_empty get_options [])))) \<and>
   (step models)\<^sup>*\<^sup>*
     (fst (snd (fetch models server_page plans_empty get_options [])))
     (fst (snd (fetch models server_500
                  (fst (snd (fetch models server_page plans_empty get_options []))) get_options []))) \<and>
   succeededOnce (fetchStates
     (fst (snd (fetch models server_500
                  (fst (snd (fetch models server_page plans_empty get_options []))) get_options []))))"
proof -
  let ?A = "fst (snd (fetch models server_page plans_empty get_options []))"
  let ?run = "fetch models server_500 ?A get_options []"
  have h1: "succeededOnce (fetchStates ?A)"
    by (simp add: fetch_defs inst_get_def buildItem_def buildField_def schema_field_def
        buildValidator_def setCollection_def set_prop_def example_defs)
  have "?run = (fst ?run, fst (snd ?run), snd (snd ?run))" by simp
  then have "step models ?A (fst (snd ?run))" by (rule step_fetch)
  then have h2: "(step models)\<^sup>*\<^sup>* ?A (fst (snd ?run))" by (rule r_into_rtranclp)
  from succeededOnce_monotonic [OF h1 h2] h1 h2 show ?thesis by simp
qed

text \<open>
  C9, as stated, fails on a model without an endpoint (the default): \<open>fetch\<close> raises
  before it sets anything, and the global \<open>progressing\<close> flag is still false after the
  call.
\<close>

theorem fetch_without_endpoint:
  "fst (fetch models server_page base_1 get_options []) = Some (RestinfrontError EndpointRequired) \<and>
   \<not> progressing (fetchStates (fst (snd (fetch models server_page base_1 get_options []))))"
  by (simp add: fetch_defs example_defs)

text \<open>
  C9, amended. On a model with a configured endpoint, a call of \<open>fetch\<close> leaves the global
  \<open>progressing\<close> flag true, however it ends, and the flag is true after every sequence of
  operations that follows: no operation sets it back to false.
\<close>

theorem progressing_stays:
  assumes "endpoint (ct (cname this)) \<noteq> []"
    and "fetch ct en this options log = (r, this1, log1)"
    and "(step ct)\<^sup>*\<^sup>* this1 this2"
  shows "progressing (fetchStates this1) \<and> progressing (fetchStates this2)"
  using fetch_flags [OF assms(2)] steps_flags [OF assms(3)] assms(1) by blast

theorem progressing_stays_witness:
  "endpoint (models (cname plans_one)) \<noteq> [] \<and>
   (step models)\<^sup>*\<^sup>*
     (fst (snd (fetch models server_500 plans_one get_options [])))
     (fst (snd (valid models (fst (snd (fetch models server_500 plans_one get_options []))) [] []))) \<and>
   progressing (fetchStates (fst (snd (fetch models server_500 plans_one get_options [])))) \<and>
   progressing (fetchStates
     (fst (snd (valid models (fst (snd (fetch models server_500 plans_one get_options []))) [] []))))"
proof -
  let ?run = "fetch models server_500 plans_one get_options []"
  let ?v = "valid models (fst (snd ?run)) [] []"
  have h1: "endpoint (models (cname plans_one)) \<noteq> []" by (simp add: example_defs)
  have h2: "?run = (fst ?run, fst (snd ?run), snd (snd ?run))" by simp
  have "?v = (fst ?v, fst (snd ?v), snd (snd ?v))" by simp
  then have "step models (fst (snd ?run)) (fst (snd ?v))" by (rule step_valid)
  then have h3: "(step models)\<^sup>*\<^sup>* (fst (snd ?run)) (fst (snd ?v))"
    by (rule r_into_rtranclp)
  from progressing_stays [OF h1 h2 h3] h1 h3 show ?thesis by simp
qed

end
